theory Spec2Isabelle
  imports Main "HOL-Library.Char_ord" "HOL-Library.List_Lexorder"
begin

section \<open>Values at the console boundary\<close>

text \<open>
  Every operation of \<^verbatim>\<open>DBOperations\<close> reads its arguments with \<^verbatim>\<open>input()\<close>.
  A line that the source passes to \<^verbatim>\<open>int(...)\<close> is modelled by what \<^verbatim>\<open>int\<close> makes
  of it: an empty line, a line that is no integer literal (both raise \<^verbatim>\<open>ValueError\<close>),
  or the integer it denotes. Python integers are unbounded, hence \<open>int\<close>.
\<close>

datatype typed = Empty_line | Non_integer | Integer int

datatype constraint =
    CHECK_status
  | CHECK_origin_destination
  | UNIQUE_license_id
  | UNIQUE_city_airport_code
  | UNIQUE_flight_pilot

datatype exn =
    ValueError
  | OverflowError
  | IntegrityError constraint
  | DatabaseFull

fun py_int :: "typed \<Rightarrow> exn + int" where
  "py_int (Integer n) = Inr n"
| "py_int Empty_line = Inl ValueError"
| "py_int Non_integer = Inl ValueError"

text \<open>
  What an operation prints before it returns: \<open>Rows_printed\<close> is a listing of rows,
  \<open>Silent\<close> a return with no message.
\<close>

datatype report =
    Succeeded string
  | Invalid_datetime_format
  | Not_found string
  | Does_not_exist string int
  | Has_assignments nat
  | Failed string exn
  | Rows_printed
  | Silent

section \<open>Timestamps: \<^verbatim>\<open>strptime\<close> and \<^verbatim>\<open>strftime\<close>\<close>

text \<open>
  The source validates a timestamp with
  \<^verbatim>\<open>datetime.datetime.strptime(s, "%Y-%m-%d %H:%M")\<close> and stores
  \<^verbatim>\<open>strftime("%Y-%m-%d %H:%M:%S")\<close> of the result. \<^verbatim>\<open>strptime\<close> compiles the format
  to the regular expression
  \<^verbatim>\<open>(?P<Y>\d\d\d\d)-(?P<m>1[0-2]|0[1-9]|[1-9])-(?P<d>3[0-1]|[1-2]\d|0[1-9]|[1-9]| [1-9])\s+(?P<H>2[0-3]|[0-1]\d|\d):(?P<M>[0-5]\d|\d)\<close>,
  matches it at the start of the string, raises \<^verbatim>\<open>ValueError\<close> when there is no match
  or when text remains after the match, and raises \<^verbatim>\<open>ValueError\<close> again when the
  fields are no calendar date. Each group below returns its matches in the order a
  backtracking matcher tries them. Characters are the 8-bit \<open>char\<close> of HOL, so digits are
  the ASCII digits and white space is what \<^verbatim>\<open>str.isspace\<close> accepts below code point 256.
\<close>

definition digit_of :: "char \<Rightarrow> nat option" where
  "digit_of c = (let n = (of_char c :: nat) in if 48 \<le> n \<and> n \<le> 57 then Some (n - 48) else None)"

definition is_space :: "char \<Rightarrow> bool" where
  "is_space c = ((of_char c :: nat) \<in> {9, 10, 11, 12, 13, 28, 29, 30, 31, 32, 133, 160})"

definition two_digits :: "(nat \<Rightarrow> nat \<Rightarrow> bool) \<Rightarrow> string \<Rightarrow> (nat \<times> string) list" where
  "two_digits ok s =
     (case s of
        a # b # r \<Rightarrow>
          (case digit_of a of
             None \<Rightarrow> []
           | Some x \<Rightarrow>
               (case digit_of b of
                  None \<Rightarrow> []
                | Some y \<Rightarrow> if ok x y then [(10 * x + y, r)] else []))
      | _ \<Rightarrow> [])"

definition one_digit :: "(nat \<Rightarrow> bool) \<Rightarrow> string \<Rightarrow> (nat \<times> string) list" where
  "one_digit ok s =
     (case s of
        a # r \<Rightarrow> (case digit_of a of None \<Rightarrow> [] | Some x \<Rightarrow> if ok x then [(x, r)] else [])
      | [] \<Rightarrow> [])"

definition literal :: "char \<Rightarrow> string \<Rightarrow> string list" where
  "literal c s = (case s of a # r \<Rightarrow> if a = c then [r] else [] | [] \<Rightarrow> [])"

text \<open>\<^verbatim>\<open>\s+\<close> is greedy: the longest run of white space first, then each shorter one.\<close>

fun re_spaces :: "string \<Rightarrow> string list" where
  "re_spaces [] = []"
| "re_spaces (c # r) = (if is_space c then re_spaces r @ [r] else [])"

text \<open>\<^verbatim>\<open>(?P<Y>\d\d\d\d)\<close>\<close>

definition re_Y :: "string \<Rightarrow> (nat \<times> string) list" where
  "re_Y s =
     [(100 * hi + lo, r). (hi, r1) \<leftarrow> two_digits (\<lambda>x y. True) s,
                          (lo, r) \<leftarrow> two_digits (\<lambda>x y. True) r1]"

text \<open>\<^verbatim>\<open>(?P<m>1[0-2]|0[1-9]|[1-9])\<close>\<close>

definition re_m :: "string \<Rightarrow> (nat \<times> string) list" where
  "re_m s =
     two_digits (\<lambda>x y. x = 1 \<and> y \<le> 2) s
     @ two_digits (\<lambda>x y. x = 0 \<and> 1 \<le> y) s
     @ one_digit (\<lambda>x. 1 \<le> x) s"

text \<open>\<^verbatim>\<open>(?P<d>3[0-1]|[1-2]\d|0[1-9]|[1-9]| [1-9])\<close>\<close>

definition re_d :: "string \<Rightarrow> (nat \<times> string) list" where
  "re_d s =
     two_digits (\<lambda>x y. x = 3 \<and> y \<le> 1) s
     @ two_digits (\<lambda>x y. 1 \<le> x \<and> x \<le> 2) s
     @ two_digits (\<lambda>x y. x = 0 \<and> 1 \<le> y) s
     @ one_digit (\<lambda>x. 1 \<le> x) s
     @ [(v, r). r1 \<leftarrow> literal CHR '' '' s, (v, r) \<leftarrow> one_digit (\<lambda>x. 1 \<le> x) r1]"

text \<open>\<^verbatim>\<open>(?P<H>2[0-3]|[0-1]\d|\d)\<close>\<close>

definition re_H :: "string \<Rightarrow> (nat \<times> string) list" where
  "re_H s =
     two_digits (\<lambda>x y. x = 2 \<and> y \<le> 3) s
     @ two_digits (\<lambda>x y. x \<le> 1) s
     @ one_digit (\<lambda>x. True) s"

text \<open>\<^verbatim>\<open>(?P<M>[0-5]\d|\d)\<close>\<close>

definition re_M :: "string \<Rightarrow> (nat \<times> string) list" where
  "re_M s = two_digits (\<lambda>x y. x \<le> 5) s @ one_digit (\<lambda>x. True) s"

definition then_literal :: "(nat \<times> string) list \<Rightarrow> char \<Rightarrow> (nat \<times> string) list" where
  "then_literal ms c = [(v, r). (v, r1) \<leftarrow> ms, r \<leftarrow> literal c r1]"

definition then_spaces :: "(nat \<times> string) list \<Rightarrow> (nat \<times> string) list" where
  "then_spaces ms = [(v, r). (v, r1) \<leftarrow> ms, r \<leftarrow> re_spaces r1]"

record datetime =
  year :: nat
  month :: nat
  day :: nat
  hour :: nat
  minute :: nat
  second :: nat

text \<open>All matches of the whole expression, the preferred one first, each with the rest of the string.\<close>

definition format_regex :: "string \<Rightarrow> (datetime \<times> string) list" where
  "format_regex s =
     [(\<lparr>year = y, month = m, day = d, hour = h, minute = mi, second = 0\<rparr>, r5).
        (y, r1) \<leftarrow> then_literal (re_Y s) CHR ''-'',
        (m, r2) \<leftarrow> then_literal (re_m r1) CHR ''-'',
        (d, r3) \<leftarrow> then_spaces (re_d r2),
        (h, r4) \<leftarrow> then_literal (re_H r3) CHR '':'',
        (mi, r5) \<leftarrow> re_M r4]"

definition is_leap :: "nat \<Rightarrow> bool" where
  "is_leap y = (y mod 4 = 0 \<and> (y mod 100 \<noteq> 0 \<or> y mod 400 = 0))"

definition days_in_month :: "nat \<Rightarrow> nat \<Rightarrow> nat" where
  "days_in_month y m =
     (if m = 2 then (if is_leap y then 29 else 28)
      else if m \<in> {4, 6, 9, 11} then 30 else 31)"

text \<open>The values a \<^verbatim>\<open>datetime\<close> object can hold (\<^verbatim>\<open>MINYEAR\<close> is 1, \<^verbatim>\<open>MAXYEAR\<close> is 9999).\<close>

definition valid_datetime :: "datetime \<Rightarrow> bool" where
  "valid_datetime t =
     (1 \<le> year t \<and> year t \<le> 9999 \<and> 1 \<le> month t \<and> month t \<le> 12
      \<and> 1 \<le> day t \<and> day t \<le> days_in_month (year t) (month t)
      \<and> hour t < 24 \<and> minute t < 60 \<and> second t < 60)"

text \<open>\<^verbatim>\<open>datetime.datetime.strptime(s, "%Y-%m-%d %H:%M")\<close>; \<open>None\<close> is \<^verbatim>\<open>ValueError\<close>.\<close>

definition strptime :: "string \<Rightarrow> datetime option" where
  "strptime s =
     (case format_regex s of
        [] \<Rightarrow> None
      | (t, rest) # _ \<Rightarrow> if rest \<noteq> [] then None else if valid_datetime t then Some t else None)"

definition dchar :: "nat \<Rightarrow> char" where
  "dchar n = char_of (48 + n mod 10)"

definition pad2 :: "nat \<Rightarrow> string" where
  "pad2 n = [dchar (n div 10), dchar n]"

text \<open>A number in decimal, without padding.\<close>

fun decimal :: "nat \<Rightarrow> string" where
  "decimal n = (if n < 10 then [dchar n] else decimal (n div 10) @ [dchar n])"

declare decimal.simps [simp del]

text \<open>
  \<^verbatim>\<open>strftime("%Y-%m-%d %H:%M:%S")\<close>. Month, day, hour, minute and second are
  zero-padded to two digits. \<^verbatim>\<open>%Y\<close> is left to the C library, and glibc prints the
  year as a plain decimal: a year below 1000 comes out with fewer than four digits
  (\<^verbatim>\<open>999-01-01 10:00:00\<close>).
\<close>

definition strftime :: "datetime \<Rightarrow> string" where
  "strftime t =
     decimal (year t) @ ''-'' @ pad2 (month t) @ ''-'' @ pad2 (day t) @ '' ''
     @ pad2 (hour t) @ '':'' @ pad2 (minute t) @ '':'' @ pad2 (second t)"

section \<open>The store\<close>

text \<open>
  The four tables of \<^verbatim>\<open>FlightManagement.db\<close>, each a list of rows in rowid order.
  Every operation opens its own connection and either commits or closes without
  committing, which rolls its statements back; so an operation maps a committed
  store to a committed store.
\<close>

record pilot =
  p_pilot_id :: int
  p_name :: string
  p_license_id :: string
  p_years_experience :: int

record destination =
  d_destination_id :: int
  d_city :: string
  d_country :: string
  d_airport_code :: string

record flight =
  f_flight_id :: int
  f_flight_number :: string
  f_origin_id :: int
  f_destination_id :: int
  f_departure_time :: string
  f_status :: string

record assignment =
  a_assignment_id :: int
  a_flight_id :: int
  a_pilot_id :: int
  a_assignment_date :: string

record db =
  pilots :: "pilot list"
  destinations :: "destination list"
  flights :: "flight list"
  pilot_assignments :: "assignment list"

text \<open>The store after \<^verbatim>\<open>__init__\<close> on a fresh file: four empty tables.\<close>

definition init_db :: db where
  "init_db = \<lparr>pilots = [], destinations = [], flights = [], pilot_assignments = []\<rparr>"

text \<open>
  An SQLite INTEGER is a signed 64-bit value; binding a Python integer outside that
  range raises \<^verbatim>\<open>OverflowError\<close> before the statement runs.
\<close>

definition in_int64 :: "int \<Rightarrow> bool" where
  "in_int64 n = (- (2 ^ 63) \<le> n \<and> n < 2 ^ 63)"

definition bind_int :: "int \<Rightarrow> exn + int" where
  "bind_int n = (if in_int64 n then Inr n else Inl OverflowError)"

text \<open>
  The key of a new row of an \<^verbatim>\<open>INTEGER PRIMARY KEY\<close> table: 1 in an empty table,
  otherwise one more than the largest key. When the largest key is \<open>2^63 - 1\<close> SQLite
  probes random keys and fails with \<^verbatim>\<open>SQLITE_FULL\<close> if it finds none free; the model
  takes that failure, and no theorem below that promises a success covers this case.
\<close>

definition new_rowid :: "int list \<Rightarrow> exn + int" where
  "new_rowid ids =
     (if ids = [] then Inr 1
      else if Max (set ids) < 2 ^ 63 - 1 then Inr (Max (set ids) + 1)
      else Inl DatabaseFull)"

definition has_free_rowid :: "int list \<Rightarrow> bool" where
  "has_free_rowid ids = (ids = [] \<or> Max (set ids) < 2 ^ 63 - 1)"

definition allowed_status :: "string list" where
  "allowed_status =
     [''Scheduled'', ''Cancelled'', ''Departed'', ''Arrived'', ''Delayed'', ''Boarding'',
      ''In Flight'']"

text \<open>
  \<^verbatim>\<open>INSERT INTO flights (flight_number, origin_id, destination_id, departure_time, status)\<close>.
  The two CHECK constraints of \<^verbatim>\<open>sql_create_flights\<close> are enforced. Its FOREIGN KEY
  clauses are not: SQLite enforces foreign keys only on a connection that has run
  \<^verbatim>\<open>PRAGMA foreign_keys = ON\<close>, and \<^verbatim>\<open>get_connection\<close> never does.
\<close>

definition sql_insert_flight :: "string \<times> int \<times> int \<times> string \<times> string \<Rightarrow> db \<Rightarrow> exn + db" where
  "sql_insert_flight row s =
     (case row of (flight_num, origin_id, dest_id, departure, status) \<Rightarrow>
        (case bind_int origin_id of
           Inl e \<Rightarrow> Inl e
         | Inr orig \<Rightarrow>
        (case bind_int dest_id of
           Inl e \<Rightarrow> Inl e
         | Inr dest \<Rightarrow>
        (case new_rowid (map f_flight_id (flights s)) of
           Inl e \<Rightarrow> Inl e
         | Inr rowid \<Rightarrow>
             if status \<notin> set allowed_status then Inl (IntegrityError CHECK_status)
             else if orig = dest then Inl (IntegrityError CHECK_origin_destination)
             else Inr (s\<lparr>flights := flights s @
                    [\<lparr>f_flight_id = rowid, f_flight_number = flight_num, f_origin_id = orig,
                      f_destination_id = dest, f_departure_time = departure,
                      f_status = status\<rparr>]\<rparr>)))))"

text \<open>
  \<^verbatim>\<open>UPDATE flights SET departure_time = ? WHERE flight_number = ?\<close> and
  \<^verbatim>\<open>UPDATE flights SET status = ? WHERE flight_number = ?\<close>: every row whose flight
  number equals the parameter is rewritten; the result carries \<^verbatim>\<open>cur.rowcount\<close>. A row
  that would break \<^verbatim>\<open>CHECK (status IN (...))\<close> aborts the statement and undoes it.
\<close>

definition sql_update_departure_time :: "string \<Rightarrow> string \<Rightarrow> db \<Rightarrow> exn + (int \<times> db)" where
  "sql_update_departure_time new_time flight_num s =
     Inr (int (length (filter (\<lambda>f. f_flight_number f = flight_num) (flights s))),
          s\<lparr>flights := map (\<lambda>f. if f_flight_number f = flight_num
                                  then f\<lparr>f_departure_time := new_time\<rparr> else f) (flights s)\<rparr>)"

definition sql_update_status :: "string \<Rightarrow> string \<Rightarrow> db \<Rightarrow> exn + (int \<times> db)" where
  "sql_update_status new_status flight_num s =
     (if (\<exists>f \<in> set (flights s). f_flight_number f = flight_num)
         \<and> new_status \<notin> set allowed_status
      then Inl (IntegrityError CHECK_status)
      else Inr (int (length (filter (\<lambda>f. f_flight_number f = flight_num) (flights s))),
                s\<lparr>flights := map (\<lambda>f. if f_flight_number f = flight_num
                                        then f\<lparr>f_status := new_status\<rparr> else f) (flights s)\<rparr>))"

text \<open>\<^verbatim>\<open>DELETE FROM flights WHERE flight_number = ?\<close>; rows that reference the flight stay.\<close>

definition sql_delete_flights :: "string \<Rightarrow> db \<Rightarrow> int \<times> db" where
  "sql_delete_flights flight_num s =
     (int (length (filter (\<lambda>f. f_flight_number f = flight_num) (flights s))),
      s\<lparr>flights := filter (\<lambda>f. f_flight_number f \<noteq> flight_num) (flights s)\<rparr>)"

text \<open>
  A line bound as TEXT and compared with an integer key column: the column's INTEGER
  affinity converts a numeric text to its number before the comparison, and any other
  text equals no key. \<open>Number n\<close> is a line that SQLite reads as \<open>n\<close>.
\<close>

datatype key_text = No_number | Number int

fun key_is :: "key_text \<Rightarrow> int \<Rightarrow> bool" where
  "key_is (Number n) i = (i = n)"
| "key_is No_number i = False"

text \<open>\<^verbatim>\<open>INSERT INTO pilot_assignments (flight_id, pilot_id, assignment_date)\<close> under \<^verbatim>\<open>UNIQUE(flight_id, pilot_id)\<close>.\<close>

definition sql_insert_assignment :: "int \<times> int \<times> string \<Rightarrow> db \<Rightarrow> exn + db" where
  "sql_insert_assignment row s =
     (case row of (flight_id, pilot_id, assignment_date) \<Rightarrow>
        (case bind_int flight_id of
           Inl e \<Rightarrow> Inl e
         | Inr fid \<Rightarrow>
        (case bind_int pilot_id of
           Inl e \<Rightarrow> Inl e
         | Inr pid \<Rightarrow>
        (case new_rowid (map a_assignment_id (pilot_assignments s)) of
           Inl e \<Rightarrow> Inl e
         | Inr rowid \<Rightarrow>
             if \<exists>a \<in> set (pilot_assignments s). a_flight_id a = fid \<and> a_pilot_id a = pid
             then Inl (IntegrityError UNIQUE_flight_pilot)
             else Inr (s\<lparr>pilot_assignments := pilot_assignments s @
                    [\<lparr>a_assignment_id = rowid, a_flight_id = fid, a_pilot_id = pid,
                      a_assignment_date = assignment_date\<rparr>]\<rparr>)))))"

text \<open>\<^verbatim>\<open>INSERT INTO pilots (name, license_id, years_experience)\<close> under \<^verbatim>\<open>license_id TEXT UNIQUE\<close>.\<close>

definition sql_insert_pilot :: "string \<times> string \<times> int \<Rightarrow> db \<Rightarrow> exn + db" where
  "sql_insert_pilot row s =
     (case row of (name, license_id, years_exp) \<Rightarrow>
        (case bind_int years_exp of
           Inl e \<Rightarrow> Inl e
         | Inr years \<Rightarrow>
        (case new_rowid (map p_pilot_id (pilots s)) of
           Inl e \<Rightarrow> Inl e
         | Inr rowid \<Rightarrow>
             if \<exists>p \<in> set (pilots s). p_license_id p = license_id
             then Inl (IntegrityError UNIQUE_license_id)
             else Inr (s\<lparr>pilots := pilots s @
                    [\<lparr>p_pilot_id = rowid, p_name = name, p_license_id = license_id,
                      p_years_experience = years\<rparr>]\<rparr>))))"

text \<open>\<^verbatim>\<open>INSERT INTO destinations (city, country, airport_code)\<close> under \<^verbatim>\<open>UNIQUE(city, airport_code)\<close>.\<close>

definition sql_insert_destination :: "string \<times> string \<times> string \<Rightarrow> db \<Rightarrow> exn + db" where
  "sql_insert_destination row s =
     (case row of (city, country, airport_code) \<Rightarrow>
        (case new_rowid (map d_destination_id (destinations s)) of
           Inl e \<Rightarrow> Inl e
         | Inr rowid \<Rightarrow>
             if \<exists>d \<in> set (destinations s). d_city d = city \<and> d_airport_code d = airport_code
             then Inl (IntegrityError UNIQUE_city_airport_code)
             else Inr (s\<lparr>destinations := destinations s @
                    [\<lparr>d_destination_id = rowid, d_city = city, d_country = country,
                      d_airport_code = airport_code\<rparr>]\<rparr>)))"

text \<open>
  An UPDATE visits the rows in order. A row that the WHERE clause selects is rewritten,
  unless the rewritten row collides under a UNIQUE index with another row of the table
  as it is at that moment; then the statement fails and is undone. \<open>checked\<close> says
  whether the SET list touches a column of the index, since SQLite leaves an index
  alone otherwise.
\<close>

fun update_each ::
  "('r \<Rightarrow> bool) \<Rightarrow> ('r \<Rightarrow> 'r) \<Rightarrow> bool \<Rightarrow> ('r \<Rightarrow> 'r \<Rightarrow> bool) \<Rightarrow> constraint \<Rightarrow> 'r list \<Rightarrow> 'r list
     \<Rightarrow> exn + 'r list" where
  "update_each hit upd checked clash c seen [] = Inr seen"
| "update_each hit upd checked clash c seen (r # todo) =
     (if hit r then
        (if checked \<and> (\<exists>x \<in> set (seen @ todo). clash (upd r) x)
         then Inl (IntegrityError c)
         else update_each hit upd checked clash c (seen @ [upd r]) todo)
      else update_each hit upd checked clash c (seen @ [r]) todo)"

text \<open>\<^verbatim>\<open>DELETE FROM pilot_assignments WHERE assignment_id = ?\<close>, the key bound as text.\<close>

definition sql_delete_assignment :: "key_text \<Rightarrow> db \<Rightarrow> int \<times> db" where
  "sql_delete_assignment k s =
     (int (length (filter (\<lambda>a. key_is k (a_assignment_id a)) (pilot_assignments s))),
      s\<lparr>pilot_assignments :=
           filter (\<lambda>a. \<not> key_is k (a_assignment_id a)) (pilot_assignments s)\<rparr>)"

text \<open>\<^verbatim>\<open>DELETE FROM pilots WHERE pilot_id = ?\<close>, the key bound as text.\<close>

definition sql_delete_pilot :: "key_text \<Rightarrow> db \<Rightarrow> int \<times> db" where
  "sql_delete_pilot k s =
     (int (length (filter (\<lambda>p. key_is k (p_pilot_id p)) (pilots s))),
      s\<lparr>pilots := filter (\<lambda>p. \<not> key_is k (p_pilot_id p)) (pilots s)\<rparr>)"

section \<open>Flight operations\<close>

text \<open>
  \<^verbatim>\<open>add_new_flight\<close>: the four prompts in the order the source reads them. A failing
  \<^verbatim>\<open>int(...)\<close> and every exception of the INSERT reach the handler
  \<^verbatim>\<open>except Exception\<close>, which prints and lets the connection close uncommitted.
\<close>

definition add_new_flight :: "db \<Rightarrow> string \<Rightarrow> typed \<Rightarrow> typed \<Rightarrow> string \<Rightarrow> report \<times> db" where
  "add_new_flight s flight_num origin_in dest_in departure =
     (case py_int origin_in of
        Inl e \<Rightarrow> (Failed ''Error adding flight'' e, s)
      | Inr origin_id \<Rightarrow>
     (case py_int dest_in of
        Inl e \<Rightarrow> (Failed ''Error adding flight'' e, s)
      | Inr dest_id \<Rightarrow>
     (case strptime departure of
        None \<Rightarrow> (Invalid_datetime_format, s)
      | Some departure_dt \<Rightarrow>
     (case sql_insert_flight
             (flight_num, origin_id, dest_id, strftime departure_dt, ''Scheduled'') s of
        Inl e \<Rightarrow> (Failed ''Error adding flight'' e, s)
      | Inr s' \<Rightarrow> (Succeeded ''Flight added successfully'', s')))))"


text \<open>
  The tail of \<^verbatim>\<open>update_flight_info\<close> and of the deletes: commit when
  \<^verbatim>\<open>cur.rowcount > 0\<close>, otherwise report that nothing was found and close uncommitted.
\<close>

definition commit_if_rows :: "db \<Rightarrow> int \<times> db \<Rightarrow> string \<Rightarrow> string \<Rightarrow> report \<times> db" where
  "commit_if_rows s res done_msg none_msg =
     (if fst res > 0 then (Succeeded done_msg, snd res) else (Not_found none_msg, s))"

text \<open>
  \<^verbatim>\<open>update_flight_info\<close>. With a choice other than 1 or 2 no statement runs, and the
  fresh cursor's \<^verbatim>\<open>rowcount\<close> is \<open>-1\<close>.
\<close>

definition update_flight_info :: "db \<Rightarrow> string \<Rightarrow> typed \<Rightarrow> string \<Rightarrow> report \<times> db" where
  "update_flight_info s flight_num choice_in new_value =
     (case py_int choice_in of
        Inl e \<Rightarrow> (Failed ''Error updating flight'' e, s)
      | Inr choice \<Rightarrow>
          if choice = 1 then
            (case strptime new_value of
               None \<Rightarrow> (Invalid_datetime_format, s)
             | Some new_time_dt \<Rightarrow>
                 (case sql_update_departure_time (strftime new_time_dt) flight_num s of
                    Inl e \<Rightarrow> (Failed ''Error updating flight'' e, s)
                  | Inr res \<Rightarrow>
                      commit_if_rows s res ''Flight updated successfully'' ''Flight not found''))
          else if choice = 2 then
            (case sql_update_status new_value flight_num s of
               Inl e \<Rightarrow> (Failed ''Error updating flight'' e, s)
             | Inr res \<Rightarrow>
                 commit_if_rows s res ''Flight updated successfully'' ''Flight not found'')
          else commit_if_rows s (- 1, s) ''Flight updated successfully'' ''Flight not found'')"

definition delete_flight :: "db \<Rightarrow> string \<Rightarrow> report \<times> db" where
  "delete_flight s flight_num =
     commit_if_rows s (sql_delete_flights flight_num s)
       ''Flight deleted successfully'' ''Flight not found''"

section \<open>Assignments\<close>

definition validate_flight_id_exists :: "db \<Rightarrow> int \<Rightarrow> exn + bool" where
  "validate_flight_id_exists s flight_id =
     (case bind_int flight_id of
        Inl e \<Rightarrow> Inl e
      | Inr i \<Rightarrow> Inr (\<exists>f \<in> set (flights s). f_flight_id f = i))"

definition validate_pilot_exists :: "db \<Rightarrow> int \<Rightarrow> exn + bool" where
  "validate_pilot_exists s pilot_id =
     (case bind_int pilot_id of
        Inl e \<Rightarrow> Inl e
      | Inr i \<Rightarrow> Inr (\<exists>p \<in> set (pilots s). p_pilot_id p = i))"

text \<open>\<^verbatim>\<open>str.strip()\<close>\<close>

definition strip :: "string \<Rightarrow> string" where
  "strip s = rev (dropWhile is_space (rev (dropWhile is_space s)))"

text \<open>
  \<^verbatim>\<open>assign_pilot\<close>; \<open>now\<close> is what \<^verbatim>\<open>datetime.datetime.now()\<close> returns. The two
  listings printed first read the store only. The date is prompted for after both ids
  have passed their existence checks.
\<close>

definition assign_pilot :: "db \<Rightarrow> datetime \<Rightarrow> typed \<Rightarrow> typed \<Rightarrow> string \<Rightarrow> report \<times> db" where
  "assign_pilot s now flight_in pilot_in date_in =
     (case py_int flight_in of
        Inl e \<Rightarrow> (Failed ''Error assigning pilot'' e, s)
      | Inr flight_id \<Rightarrow>
     (case validate_flight_id_exists s flight_id of
        Inl e \<Rightarrow> (Failed ''Error assigning pilot'' e, s)
      | Inr False \<Rightarrow> (Does_not_exist ''Flight'' flight_id, s)
      | Inr True \<Rightarrow>
     (case py_int pilot_in of
        Inl e \<Rightarrow> (Failed ''Error assigning pilot'' e, s)
      | Inr pilot_id \<Rightarrow>
     (case validate_pilot_exists s pilot_id of
        Inl e \<Rightarrow> (Failed ''Error assigning pilot'' e, s)
      | Inr False \<Rightarrow> (Does_not_exist ''Pilot'' pilot_id, s)
      | Inr True \<Rightarrow>
     (case (if strip date_in = [] then Some (strftime now)
            else map_option strftime (strptime (strip date_in))) of
        None \<Rightarrow> (Invalid_datetime_format, s)
      | Some assignment_date \<Rightarrow>
     (case sql_insert_assignment (flight_id, pilot_id, assignment_date) s of
        Inl e \<Rightarrow> (Failed ''Error assigning pilot'' e, s)
      | Inr s' \<Rightarrow> (Succeeded ''Pilot assigned successfully'', s')))))))"

definition delete_pilot_assignment :: "db \<Rightarrow> key_text \<Rightarrow> report \<times> db" where
  "delete_pilot_assignment s assignment_id =
     commit_if_rows s (sql_delete_assignment assignment_id s)
       ''Assignment deleted successfully'' ''Assignment not found''"

section \<open>Destinations and pilots\<close>

text \<open>
  The branches of \<^verbatim>\<open>manage_destinations\<close> and \<^verbatim>\<open>manage_pilots\<close> that write, under
  the names the specification gives them. Each takes the prompts its branch asks for and
  inherits the handler and the close of its menu function. In an update an empty line
  skips a column, and with every column skipped no statement runs and nothing is
  printed. A row id that is prompted for here is bound as text.
\<close>

definition add_destination :: "db \<Rightarrow> string \<Rightarrow> string \<Rightarrow> string \<Rightarrow> report \<times> db" where
  "add_destination s city country airport_code =
     (case sql_insert_destination (city, country, airport_code) s of
        Inl e \<Rightarrow> (Failed ''Error managing destinations'' e, s)
      | Inr s' \<Rightarrow> (Succeeded ''Destination added successfully'', s'))"

definition update_destination ::
  "db \<Rightarrow> key_text \<Rightarrow> string \<Rightarrow> string \<Rightarrow> string \<Rightarrow> report \<times> db" where
  "update_destination s dest_id city country airport_code =
     (if city \<noteq> [] \<or> country \<noteq> [] \<or> airport_code \<noteq> [] then
        (case update_each (\<lambda>d. key_is dest_id (d_destination_id d))
                (\<lambda>d. d\<lparr>d_city := (if city \<noteq> [] then city else d_city d),
                       d_country := (if country \<noteq> [] then country else d_country d),
                       d_airport_code :=
                         (if airport_code \<noteq> [] then airport_code else d_airport_code d)\<rparr>)
                (city \<noteq> [] \<or> airport_code \<noteq> [])
                (\<lambda>d x. d_city d = d_city x \<and> d_airport_code d = d_airport_code x)
                UNIQUE_city_airport_code [] (destinations s) of
           Inl e \<Rightarrow> (Failed ''Error managing destinations'' e, s)
         | Inr rows \<Rightarrow>
             (Succeeded ''Destination updated successfully'', s\<lparr>destinations := rows\<rparr>))
      else (Silent, s))"

text \<open>
  \<^verbatim>\<open>manage_destinations\<close>: choice 1 prints the table, any other choice than 2 and 3 does
  nothing, and a choice that is no integer reaches the handler.
\<close>

definition manage_destinations ::
  "db \<Rightarrow> typed \<Rightarrow> key_text \<Rightarrow> string \<Rightarrow> string \<Rightarrow> string \<Rightarrow> report \<times> db" where
  "manage_destinations s choice_in dest_id city country airport_code =
     (case py_int choice_in of
        Inl e \<Rightarrow> (Failed ''Error managing destinations'' e, s)
      | Inr choice \<Rightarrow>
          if choice = 1 then (Rows_printed, s)
          else if choice = 2 then add_destination s city country airport_code
          else if choice = 3 then update_destination s dest_id city country airport_code
          else (Silent, s))"

definition add_pilot :: "db \<Rightarrow> string \<Rightarrow> string \<Rightarrow> typed \<Rightarrow> report \<times> db" where
  "add_pilot s name license_id years_exp =
     (case py_int years_exp of
        Inl e \<Rightarrow> (Failed ''Error managing pilots'' e, s)
      | Inr years \<Rightarrow>
          (case sql_insert_pilot (name, license_id, years) s of
             Inl e \<Rightarrow> (Failed ''Error managing pilots'' e, s)
           | Inr s' \<Rightarrow> (Succeeded ''Pilot added successfully'', s')))"

text \<open>The years are converted with \<^verbatim>\<open>int(...)\<close> only when the line is not empty.\<close>

definition update_pilot :: "db \<Rightarrow> key_text \<Rightarrow> string \<Rightarrow> string \<Rightarrow> typed \<Rightarrow> report \<times> db" where
  "update_pilot s pilot_id name license_id years_exp =
     (case (if years_exp = Empty_line then Inr None
            else (case py_int years_exp of
                    Inl e \<Rightarrow> Inl e
                  | Inr y \<Rightarrow> map_sum id Some (bind_int y))) of
        Inl e \<Rightarrow> (Failed ''Error managing pilots'' e, s)
      | Inr years \<Rightarrow>
          if name \<noteq> [] \<or> license_id \<noteq> [] \<or> years \<noteq> None then
            (case update_each (\<lambda>p. key_is pilot_id (p_pilot_id p))
                    (\<lambda>p. p\<lparr>p_name := (if name \<noteq> [] then name else p_name p),
                           p_license_id :=
                             (if license_id \<noteq> [] then license_id else p_license_id p),
                           p_years_experience :=
                             (case years of None \<Rightarrow> p_years_experience p | Some y \<Rightarrow> y)\<rparr>)
                    (license_id \<noteq> [])
                    (\<lambda>p x. p_license_id p = p_license_id x)
                    UNIQUE_license_id [] (pilots s) of
               Inl e \<Rightarrow> (Failed ''Error managing pilots'' e, s)
             | Inr rows \<Rightarrow> (Succeeded ''Pilot updated successfully'', s\<lparr>pilots := rows\<rparr>))
          else (Silent, s))"

text \<open>The pilot's assignments are counted first; the branch returns early when there are any.\<close>

definition delete_pilot :: "db \<Rightarrow> key_text \<Rightarrow> report \<times> db" where
  "delete_pilot s pilot_id =
     (let assignment_count =
            length (filter (\<lambda>a. key_is pilot_id (a_pilot_id a)) (pilot_assignments s))
      in if assignment_count > 0 then (Has_assignments assignment_count, s)
         else commit_if_rows s (sql_delete_pilot pilot_id s)
                ''Pilot deleted successfully'' ''Pilot not found'')"

text \<open>\<^verbatim>\<open>manage_pilots\<close>, with the same treatment of the choice.\<close>

definition manage_pilots ::
  "db \<Rightarrow> typed \<Rightarrow> key_text \<Rightarrow> string \<Rightarrow> string \<Rightarrow> typed \<Rightarrow> report \<times> db" where
  "manage_pilots s choice_in pilot_id name license_id years_exp =
     (case py_int choice_in of
        Inl e \<Rightarrow> (Failed ''Error managing pilots'' e, s)
      | Inr choice \<Rightarrow>
          if choice = 1 then (Rows_printed, s)
          else if choice = 2 then add_pilot s name license_id years_exp
          else if choice = 3 then update_pilot s pilot_id name license_id years_exp
          else if choice = 4 then delete_pilot s pilot_id
          else (Silent, s))"

section \<open>Sample data\<close>

definition sample_pilots :: "(string \<times> string \<times> int) list" where
  "sample_pilots =
     [(''James Smith'', ''UK10001'', 15), (''Jane Smith'', ''UK10002'', 12),
      (''Michael Scott'', ''UK10003'', 8), (''Tim Robinson'', ''UK10004'', 20),
      (''Taylor Swift'', ''UK10005'', 10), (''Matthew Fox'', ''UK10006'', 7),
      (''John Locke'', ''UK10007'', 5), (''Jim Halpert'', ''UK10008'', 18),
      (''Adam Scott'', ''UK10009'', 25), (''Travis Touchdown'', ''UK10010'', 3),
      (''Sarah Connor'', ''UK10011'', 22), (''Ellen Ripley'', ''UK10012'', 19),
      (''Han Solo'', ''UK10013'', 30), (''Cloud Strife'', ''UK10014'', 15),
      (''Luke Skywalker'', ''UK10015'', 12)]"

definition sample_destinations :: "(string \<times> string \<times> string) list" where
  "sample_destinations =
     [(''London'', ''UK'', ''LHR''), (''Tokyo'', ''Japan'', ''HND''),
      (''Seoul'', ''Korea'', ''KIX''), (''Paris'', ''France'', ''CDG''),
      (''Berlin'', ''Germany'', ''BER''), (''New York'', ''USA'', ''JFK''),
      (''Dubai'', ''UAE'', ''DXB''), (''Sydney'', ''Australia'', ''SYD''),
      (''Toronto'', ''Canada'', ''YYZ''), (''Los Angeles'', ''USA'', ''LAX''),
      (''Singapore'', ''Singapore'', ''SIN''), (''Hong Kong'', ''China'', ''HKG''),
      (''Rome'', ''Italy'', ''FCO''), (''Madrid'', ''Spain'', ''MAD''),
      (''Cape Town'', ''South Africa'', ''CPT'')]"

definition sample_flights :: "(string \<times> int \<times> int \<times> string \<times> string) list" where
  "sample_flights =
     [(''BA101'', 1, 2, ''2025-03-10 10:00:00'', ''Scheduled''),
      (''BA102'', 2, 1, ''2025-03-10 14:00:00'', ''Scheduled''),
      (''BA103'', 1, 3, ''2025-03-11 09:00:00'', ''Scheduled''),
      (''BA104'', 3, 4, ''2025-03-12 12:00:00'', ''Scheduled''),
      (''BA105'', 4, 5, ''2025-03-13 15:00:00'', ''Scheduled''),
      (''BA106'', 5, 6, ''2025-03-14 08:00:00'', ''Scheduled''),
      (''BA107'', 6, 7, ''2025-03-15 11:00:00'', ''Scheduled''),
      (''BA108'', 7, 8, ''2025-03-16 13:00:00'', ''Scheduled''),
      (''BA109'', 8, 9, ''2025-03-17 16:00:00'', ''Scheduled''),
      (''BA110'', 9, 10, ''2025-03-18 18:00:00'', ''Scheduled''),
      (''BA111'', 10, 11, ''2025-03-19 07:00:00'', ''Scheduled''),
      (''BA112'', 11, 12, ''2025-03-20 09:00:00'', ''Scheduled''),
      (''BA113'', 12, 13, ''2025-03-21 11:00:00'', ''Scheduled''),
      (''BA114'', 13, 14, ''2025-03-22 13:00:00'', ''Scheduled''),
      (''BA115'', 14, 15, ''2025-03-23 15:00:00'', ''Scheduled'')]"

definition sample_assignments :: "(int \<times> int \<times> string) list" where
  "sample_assignments =
     [(1, 1, ''2025-02-01 10:00:00''), (1, 2, ''2025-02-01 10:00:00''),
      (2, 3, ''2025-02-02 14:00:00''), (3, 4, ''2025-02-03 09:00:00''),
      (3, 5, ''2025-03-03 09:00:00''), (4, 6, ''2025-03-04 12:00:00''),
      (5, 7, ''2025-03-05 15:00:00''), (6, 8, ''2025-03-06 08:00:00''),
      (7, 9, ''2025-03-07 11:00:00''), (8, 10, ''2025-03-08 13:00:00''),
      (8, 1, ''2025-03-08 13:00:00''), (9, 11, ''2025-03-09 16:00:00''),
      (10, 12, ''2025-03-10 18:00:00''), (11, 13, ''2025-03-11 07:00:00''),
      (12, 14, ''2025-03-12 09:00:00''), (12, 15, ''2025-03-12 09:00:00'')]"

text \<open>A \<^verbatim>\<open>for\<close> loop of INSERTs: the first exception ends it.\<close>

fun execute_each :: "('r \<Rightarrow> db \<Rightarrow> exn + db) \<Rightarrow> 'r list \<Rightarrow> db \<Rightarrow> exn + db" where
  "execute_each ins [] s = Inr s"
| "execute_each ins (r # rs) s =
     (case ins r s of Inl e \<Rightarrow> Inl e | Inr s' \<Rightarrow> execute_each ins rs s')"

text \<open>
  \<^verbatim>\<open>populate_sample_data\<close>: one transaction, committed after the last INSERT; an
  exception on the way leaves the store as it was.
\<close>

definition populate_sample_data :: "db \<Rightarrow> report \<times> db" where
  "populate_sample_data s =
     (case execute_each sql_insert_pilot sample_pilots s of
        Inl e \<Rightarrow> (Failed ''Error populating sample data'' e, s)
      | Inr s1 \<Rightarrow>
     (case execute_each sql_insert_destination sample_destinations s1 of
        Inl e \<Rightarrow> (Failed ''Error populating sample data'' e, s)
      | Inr s2 \<Rightarrow>
     (case execute_each sql_insert_flight sample_flights s2 of
        Inl e \<Rightarrow> (Failed ''Error populating sample data'' e, s)
      | Inr s3 \<Rightarrow>
     (case execute_each sql_insert_assignment sample_assignments s3 of
        Inl e \<Rightarrow> (Failed ''Error populating sample data'' e, s)
      | Inr s4 \<Rightarrow> (Succeeded ''Sample data populated successfully'', s4)))))"

section \<open>Listing the flights\<close>

text \<open>
  Choice 4 of \<^verbatim>\<open>view_flights_by_criteria\<close>: every flight with the cities of its origin
  and of its destination, \<^verbatim>\<open>FROM flights f JOIN destinations d1 ON f.origin_id =
  d1.destination_id JOIN destinations d2 ON f.destination_id = d2.destination_id\<close>. A
  flight whose origin or destination is no row of \<^verbatim>\<open>destinations\<close> is not listed.
\<close>

definition view_all_flights :: "db \<Rightarrow> (string \<times> string \<times> string \<times> string \<times> string) list" where
  "view_all_flights s =
     [(f_flight_number f, d_city d1, d_city d2, f_departure_time f, f_status f).
        f \<leftarrow> flights s,
        d1 \<leftarrow> destinations s, f_origin_id f = d_destination_id d1,
        d2 \<leftarrow> destinations s, f_destination_id f = d_destination_id d2]"

section \<open>The pilot flight summary\<close>

text \<open>
  \<^verbatim>\<open>FROM pilots p LEFT JOIN pilot_assignments pa ON p.pilot_id = pa.pilot_id
  LEFT JOIN flights f ON pa.flight_id = f.flight_id\<close>: a pilot without assignments
  keeps one row with both right sides NULL, an assignment without its flight keeps
  one row with the flight NULL.
\<close>

definition left_join_flights ::
  "db \<Rightarrow> pilot \<Rightarrow> assignment \<Rightarrow> (pilot \<times> assignment option \<times> flight option) list" where
  "left_join_flights s p pa =
     (let fs = filter (\<lambda>f. a_flight_id pa = f_flight_id f) (flights s)
      in if fs = [] then [(p, Some pa, None)] else map (\<lambda>f. (p, Some pa, Some f)) fs)"




text \<open>\<^verbatim>\<open>COUNT(pa.flight_id)\<close> counts the rows whose assignment side is not NULL.\<close>

definition counts_flight :: "pilot \<times> assignment option \<times> flight option \<Rightarrow> bool" where
  "counts_flight row = (case row of (p, pa, f) \<Rightarrow> pa \<noteq> None)"



section \<open>The menu loop\<close>

text \<open>
  The stores the program can reach from a fresh file: each round of the menu loop runs
  one operation on the store the last one left. The operations that only read are left
  out, since they return the store they were given.
\<close>

inductive reachable :: "db \<Rightarrow> bool" where
  fresh: "reachable init_db"
| menu_1: "reachable s \<Longrightarrow> reachable (snd (add_new_flight s flight_num origin_in dest_in departure))"
| menu_3: "reachable s \<Longrightarrow> reachable (snd (update_flight_info s flight_num choice_in new_value))"
| menu_4: "reachable s \<Longrightarrow> valid_datetime now
           \<Longrightarrow> reachable (snd (assign_pilot s now flight_in pilot_in date_in))"
| menu_6: "reachable s
           \<Longrightarrow> reachable (snd (manage_destinations s choice_in dest_id city country airport_code))"
| menu_7: "reachable s \<Longrightarrow> reachable (snd (delete_flight s flight_num))"
| menu_11: "reachable s
            \<Longrightarrow> reachable (snd (manage_pilots s choice_in pilot_id name license_id years_exp))"
| menu_12: "reachable s \<Longrightarrow> reachable (snd (delete_pilot_assignment s assignment_id))"
| menu_13: "reachable s \<Longrightarrow> reachable (snd (populate_sample_data s))"

section \<open>The timestamp formats of the specification\<close>

text \<open>
  The format of the specification, \<^verbatim>\<open>YYYY-MM-DD HH:MM\<close>, read from its words: four
  digits, two, two, two and two, with these separators, naming a calendar date and a
  time of day. \<open>shape\<close> replaces every digit by a 9.
\<close>

definition shape :: "string \<Rightarrow> string" where
  "shape s = map (\<lambda>c. if digit_of c \<noteq> None then CHR ''9'' else c) s"

definition number :: "string \<Rightarrow> nat" where
  "number s = foldl (\<lambda>n c. 10 * n + (case digit_of c of None \<Rightarrow> 0 | Some d \<Rightarrow> d)) 0 s"

definition is_YYYY_MM_DD_HH_MM :: "string \<Rightarrow> bool" where
  "is_YYYY_MM_DD_HH_MM s =
     (shape s = ''9999-99-99 99:99''
      \<and> valid_datetime
          \<lparr>year = number (take 4 s), month = number (take 2 (drop 5 s)),
           day = number (take 2 (drop 8 s)), hour = number (take 2 (drop 11 s)),
           minute = number (take 2 (drop 14 s)), second = 0\<rparr>)"

text \<open>The form \<^verbatim>\<open>YYYY-MM-DD HH:MM:SS\<close>, with a year of four digits.\<close>

definition is_YYYY_MM_DD_HH_MM_SS :: "string \<Rightarrow> bool" where
  "is_YYYY_MM_DD_HH_MM_SS s = (shape s = ''9999-99-99 99:99:99'')"

text \<open>
  The same with a year of one to four digits: a date, a time of day and explicit
  seconds, the year not necessarily padded.
\<close>

definition carries_seconds :: "string \<Rightarrow> bool" where
  "carries_seconds s =
     (shape s \<in> set [''9-99-99 99:99:99'', ''99-99-99 99:99:99'', ''999-99-99 99:99:99'',
                      ''9999-99-99 99:99:99''])"

section \<open>An example store\<close>

text \<open>
  Two destinations, two flights that share the flight number BA900, two pilots and one
  assignment of the first pilot to the first flight.
\<close>

definition example_db :: db where
  "example_db =
     \<lparr>pilots =
        [\<lparr>p_pilot_id = 1, p_name = ''Test Pilot'', p_license_id = ''X1'', p_years_experience = 0\<rparr>,
         \<lparr>p_pilot_id = 2, p_name = ''Second Pilot'', p_license_id = ''X2'',
          p_years_experience = 3\<rparr>],
      destinations =
        [\<lparr>d_destination_id = 1, d_city = ''London'', d_country = ''UK'', d_airport_code = ''LHR''\<rparr>,
         \<lparr>d_destination_id = 2, d_city = ''Paris'', d_country = ''France'',
          d_airport_code = ''CDG''\<rparr>],
      flights =
        [\<lparr>f_flight_id = 1, f_flight_number = ''BA900'', f_origin_id = 1, f_destination_id = 2,
          f_departure_time = ''2025-06-01 10:00:00'', f_status = ''Scheduled''\<rparr>,
         \<lparr>f_flight_id = 2, f_flight_number = ''BA900'', f_origin_id = 2, f_destination_id = 1,
          f_departure_time = ''2025-06-02 10:00:00'', f_status = ''Scheduled''\<rparr>],
      pilot_assignments =
        [\<lparr>a_assignment_id = 1, a_flight_id = 1, a_pilot_id = 1,
          a_assignment_date = ''2025-05-01 09:00:00''\<rparr>]\<rparr>"


section \<open>The summary as the specification words it\<close>

text \<open>
  Per pilot: the number of the pilot's assignment rows, and the number of those whose
  flight departs after the store's current time.
\<close>





section \<open>Invariants of the store\<close>

text \<open>
  Every stored departure time and assignment date carries explicit seconds; no two
  assignment rows have the same flight and pilot. \<open>preserves s s'\<close> says that each of
  the two properties carries over from \<open>s\<close> to \<open>s'\<close>.
\<close>

definition timestamps_carry_seconds :: "db \<Rightarrow> bool" where
  "timestamps_carry_seconds s =
     ((\<forall>f \<in> set (flights s). carries_seconds (f_departure_time f))
      \<and> (\<forall>a \<in> set (pilot_assignments s). carries_seconds (a_assignment_date a)))"

definition assignment_pairs_unique :: "db \<Rightarrow> bool" where
  "assignment_pairs_unique s =
     distinct (map (\<lambda>a. (a_flight_id a, a_pilot_id a)) (pilot_assignments s))"

definition preserves :: "db \<Rightarrow> db \<Rightarrow> bool" where
  "preserves s s' =
     ((timestamps_carry_seconds s \<longrightarrow> timestamps_carry_seconds s')
      \<and> (assignment_pairs_unique s \<longrightarrow> assignment_pairs_unique s'))"


text \<open>A value of \<^verbatim>\<open>datetime.datetime.now()\<close> for the examples.\<close>

definition example_now :: datetime where
  "example_now = \<lparr>year = 2026, month = 11, day = 4, hour = 12, minute = 30, second = 15\<rparr>"


section \<open>Properties\<close>

subsection \<open>Parsing and printing digits\<close>

lemma digit_of_Some:
  assumes "digit_of c = Some x"
  shows "x < 10" and "dchar x = c" and "c \<noteq> CHR ''-''" and "c \<noteq> CHR '' ''" and "c \<noteq> CHR '':''"
    and "\<not> is_space c"
proof -
  from assms have n: "48 \<le> (of_char c :: nat)" "(of_char c :: nat) \<le> 57" "x = of_char c - 48"
    by (auto simp: digit_of_def Let_def split: if_splits)
  show "x < 10" using n by simp
  have "48 + x mod 10 = (of_char c :: nat)" using n by simp
  then show "dchar x = c" by (simp add: dchar_def)
  show "c \<noteq> CHR ''-''" using n by auto
  show "c \<noteq> CHR '' ''" using n by auto
  show "c \<noteq> CHR '':''" using n by auto
  show "\<not> is_space c" using n by (auto simp: is_space_def)
qed

lemma shape_char_digit:
  "((if digit_of c \<noteq> None then CHR ''9'' else c) = CHR ''9'') = (digit_of c \<noteq> None)"
  by (auto simp: digit_of_def)

lemma shape_char_sep:
  "digit_of k = None \<Longrightarrow> k \<noteq> CHR ''9'' \<Longrightarrow> ((if digit_of c \<noteq> None then CHR ''9'' else c) = k) = (c = k)"
  by auto

lemma two_digits_Cons:
  "digit_of a = Some x \<Longrightarrow> digit_of b = Some y
   \<Longrightarrow> two_digits ok (a # b # r) = (if ok x y then [(10 * x + y, r)] else [])"
  by (simp add: two_digits_def)

lemma one_digit_Cons:
  "digit_of a = Some x \<Longrightarrow> one_digit ok (a # r) = (if ok x then [(x, r)] else [])"
  by (simp add: one_digit_def)

lemma literal_Cons: "literal c (a # r) = (if a = c then [r] else [])"
  by (simp add: literal_def)

lemma year_padded:
  assumes "digit_of a = Some x" "digit_of b = Some y" "digit_of c = Some z" "digit_of d = Some w"
  shows "then_literal (re_Y (a # b # c # d # CHR ''-'' # r)) CHR ''-''
         = [(1000 * x + 100 * y + 10 * z + w, r)]"
  using assms by (simp add: re_Y_def then_literal_def two_digits_Cons literal_Cons)

lemma month_padded:
  assumes "digit_of a = Some x" "digit_of b = Some y" "1 \<le> 10 * x + y" "10 * x + y \<le> 12"
  shows "then_literal (re_m (a # b # CHR ''-'' # r)) CHR ''-'' = [(10 * x + y, r)]"
proof -
  have "x = 1 \<and> y \<le> 2 \<or> x = 0 \<and> 1 \<le> y" using assms(3,4) by arith
  then show ?thesis
    using assms(1,2) digit_of_Some(3)[OF assms(2)]
    by (auto simp: re_m_def then_literal_def two_digits_Cons one_digit_Cons literal_Cons)
qed

lemma is_space_blank: "is_space CHR '' ''"
  by (simp add: is_space_def)

lemma day_padded:
  assumes "digit_of a = Some x" "digit_of b = Some y" "1 \<le> 10 * x + y" "10 * x + y \<le> 31"
    and "digit_of c = Some z"
  shows "then_spaces (re_d (a # b # CHR '' '' # c # r)) = [(10 * x + y, c # r)]"
proof -
  have "x = 3 \<and> y \<le> 1 \<or> (1 \<le> x \<and> x \<le> 2) \<or> x = 0 \<and> 1 \<le> y" using assms(3,4) by arith
  then show ?thesis
    using assms(1,2,5) digit_of_Some(6)[OF assms(2)] digit_of_Some(6)[OF assms(5)]
      digit_of_Some(4)[OF assms(1)]
    by (auto simp: re_d_def then_spaces_def two_digits_Cons one_digit_Cons literal_Cons
          is_space_blank)
qed

lemma hour_padded:
  assumes "digit_of a = Some x" "digit_of b = Some y" "10 * x + y < 24"
  shows "then_literal (re_H (a # b # CHR '':'' # r)) CHR '':'' = [(10 * x + y, r)]"
proof -
  have "x = 2 \<and> y \<le> 3 \<or> x \<le> 1" using assms(3) by arith
  then show ?thesis
    using assms(1,2) digit_of_Some(5)[OF assms(2)]
    by (auto simp: re_H_def then_literal_def two_digits_Cons one_digit_Cons literal_Cons)
qed

lemma minute_padded:
  assumes "digit_of a = Some x" "digit_of b = Some y" "10 * x + y < 60"
  shows "re_M [a, b] = [(10 * x + y, []), (x, [b])]"
proof -
  have "x \<le> 5" using assms(3) by arith
  then show ?thesis
    using assms(1,2)
    by (simp add: re_M_def two_digits_Cons one_digit_Cons)
qed

lemma pad2_digits:
  assumes "digit_of a = Some x" "digit_of b = Some y"
  shows "pad2 (10 * x + y) = [a, b]"
proof -
  have "x < 10" "y < 10" using assms digit_of_Some(1) by auto
  then have "(10 * x + y) div 10 mod 10 = x" "(10 * x + y) mod 10 = y" by auto
  then have "dchar ((10 * x + y) div 10) = dchar x" "dchar (10 * x + y) = dchar y"
    by (simp_all add: dchar_def)
  then show ?thesis
    using assms digit_of_Some(2) by (simp add: pad2_def)
qed

lemma div_digit: "w < 10 \<Longrightarrow> (10 * q + w) div 10 = (q::nat)" "w < 10 \<Longrightarrow> (10 * q + w) mod 10 = (w::nat)"
  by simp_all

lemma decimal_small: "n < 10 \<Longrightarrow> decimal n = [dchar n]"
  by (subst decimal.simps) simp

lemma decimal_step:
  assumes "w < 10" "1 \<le> q"
  shows "decimal (10 * q + w) = decimal q @ [dchar w]"
proof -
  have "\<not> 10 * q + w < 10" using assms(2) by simp
  moreover have "(10 * q + w) div 10 = q" using assms(1) by (rule div_digit(1))
  moreover have "dchar (10 * q + w) = dchar w"
    unfolding dchar_def using div_digit(2)[OF assms(1), of q] by simp
  ultimately show ?thesis by (subst decimal.simps) simp
qed

lemma decimal_digits:
  assumes "digit_of a = Some x" "digit_of b = Some y" "digit_of c = Some z" "digit_of d = Some w"
    and "1 \<le> x"
  shows "decimal (1000 * x + 100 * y + 10 * z + w) = [a, b, c, d]"
proof -
  have b: "x < 10" "y < 10" "z < 10" "w < 10" using assms digit_of_Some(1) by auto
  have e: "1000 * x + 100 * y + 10 * z + w = 10 * (10 * (10 * x + y) + z) + w" by simp
  have q: "1 \<le> 10 * x + y" "1 \<le> 10 * (10 * x + y) + z" using assms(5) by simp_all
  have "decimal (10 * (10 * (10 * x + y) + z) + w) = [dchar x, dchar y, dchar z, dchar w]"
    by (simp only: decimal_step[OF b(4) q(2)] decimal_step[OF b(3) q(1)]
        decimal_step[OF b(2) assms(5)] decimal_small[OF b(1)] append.simps)
  moreover have "dchar x = a" "dchar y = b" "dchar z = c" "dchar w = d"
    using assms(1-4) digit_of_Some(2) by simp_all
  ultimately show ?thesis by (simp only: e)
qed

lemma shape_16:
  assumes "shape s = ''9999-99-99 99:99''"
  obtains a b c d e f g h i j k l xa xb xc xd xe xf xg xh xi xj xk xl where
    "s = [a, b, c, d, CHR ''-'', e, f, CHR ''-'', g, h, CHR '' '', i, j, CHR '':'', k, l]"
    "digit_of a = Some xa" "digit_of b = Some xb" "digit_of c = Some xc" "digit_of d = Some xd"
    "digit_of e = Some xe" "digit_of f = Some xf" "digit_of g = Some xg" "digit_of h = Some xh"
    "digit_of i = Some xi" "digit_of j = Some xj" "digit_of k = Some xk" "digit_of l = Some xl"
proof -
  from assms obtain a b c d s1 e f s2 g h s3 i j s4 k l where
    s: "s = [a, b, c, d, s1, e, f, s2, g, h, s3, i, j, s4, k, l]"
    and ch: "(if digit_of a \<noteq> None then CHR ''9'' else a) = CHR ''9''"
      "(if digit_of b \<noteq> None then CHR ''9'' else b) = CHR ''9''"
      "(if digit_of c \<noteq> None then CHR ''9'' else c) = CHR ''9''"
      "(if digit_of d \<noteq> None then CHR ''9'' else d) = CHR ''9''"
      "(if digit_of s1 \<noteq> None then CHR ''9'' else s1) = CHR ''-''"
      "(if digit_of e \<noteq> None then CHR ''9'' else e) = CHR ''9''"
      "(if digit_of f \<noteq> None then CHR ''9'' else f) = CHR ''9''"
      "(if digit_of s2 \<noteq> None then CHR ''9'' else s2) = CHR ''-''"
      "(if digit_of g \<noteq> None then CHR ''9'' else g) = CHR ''9''"
      "(if digit_of h \<noteq> None then CHR ''9'' else h) = CHR ''9''"
      "(if digit_of s3 \<noteq> None then CHR ''9'' else s3) = CHR '' ''"
      "(if digit_of i \<noteq> None then CHR ''9'' else i) = CHR ''9''"
      "(if digit_of j \<noteq> None then CHR ''9'' else j) = CHR ''9''"
      "(if digit_of s4 \<noteq> None then CHR ''9'' else s4) = CHR '':''"
      "(if digit_of k \<noteq> None then CHR ''9'' else k) = CHR ''9''"
      "(if digit_of l \<noteq> None then CHR ''9'' else l) = CHR ''9''"
    unfolding shape_def by (auto simp only: map_eq_Cons_conv list.map Nil_is_map_conv)
  have seps: "s1 = CHR ''-''" "s2 = CHR ''-''" "s3 = CHR '' ''" "s4 = CHR '':''"
    using ch(5,8,11,14) by (auto split: if_splits)
  have digs: "digit_of a \<noteq> None" "digit_of b \<noteq> None" "digit_of c \<noteq> None" "digit_of d \<noteq> None"
    "digit_of e \<noteq> None" "digit_of f \<noteq> None" "digit_of g \<noteq> None" "digit_of h \<noteq> None"
    "digit_of i \<noteq> None" "digit_of j \<noteq> None" "digit_of k \<noteq> None" "digit_of l \<noteq> None"
    using ch(1-4,6,7,9,10,12,13,15,16) by (simp_all only: shape_char_digit not_False_eq_True)
  then obtain xa xb xc xd xe xf xg xh xi xj xk xl where
    dgs: "digit_of a = Some xa" "digit_of b = Some xb" "digit_of c = Some xc" "digit_of d = Some xd"
    "digit_of e = Some xe" "digit_of f = Some xf" "digit_of g = Some xg" "digit_of h = Some xh"
    "digit_of i = Some xi" "digit_of j = Some xj" "digit_of k = Some xk" "digit_of l = Some xl"
    by blast
  show thesis
    by (rule that[of a b c d e f g h i j k l xa xb xc xd xe xf xg xh xi xj xk xl])
      (use s seps dgs in simp_all)
qed

lemma number_2: "digit_of a = Some x \<Longrightarrow> digit_of b = Some y \<Longrightarrow> number [a, b] = 10 * x + y"
  by (simp add: number_def)
lemma number_4:
  "digit_of a = Some x \<Longrightarrow> digit_of b = Some y \<Longrightarrow> digit_of c = Some z \<Longrightarrow> digit_of d = Some w
   \<Longrightarrow> number [a, b, c, d] = 1000 * x + 100 * y + 10 * z + w"
  by (simp add: number_def)
lemma strict_numbers:
  assumes dg: "digit_of a = Some xa" "digit_of b = Some xb" "digit_of c = Some xc" "digit_of d = Some xd"
    "digit_of e = Some xe" "digit_of f = Some xf" "digit_of g = Some xg" "digit_of h = Some xh"
    "digit_of i = Some xi" "digit_of j = Some xj" "digit_of k = Some xk" "digit_of l = Some xl"
    and s: "s = [a, b, c, d, CHR ''-'', e, f, CHR ''-'', g, h, CHR '' '', i, j, CHR '':'', k, l]"
  shows "number (take 4 s) = 1000 * xa + 100 * xb + 10 * xc + xd"
    "number (take 2 (drop 5 s)) = 10 * xe + xf"
    "number (take 2 (drop 8 s)) = 10 * xg + xh" "number (take 2 (drop 11 s)) = 10 * xi + xj"
    "number (take 2 (drop 14 s)) = 10 * xk + xl"
  unfolding s using dg by (simp_all add: number_2 number_4)
lemma strict_format_regex:
  assumes dg: "digit_of a = Some xa" "digit_of b = Some xb" "digit_of c = Some xc" "digit_of d = Some xd"
    "digit_of e = Some xe" "digit_of f = Some xf" "digit_of g = Some xg" "digit_of h = Some xh"
    "digit_of i = Some xi" "digit_of j = Some xj" "digit_of k = Some xk" "digit_of l = Some xl"
    and s: "s = [a, b, c, d, CHR ''-'', e, f, CHR ''-'', g, h, CHR '' '', i, j, CHR '':'', k, l]"
    and rng: "1 \<le> 10 * xe + xf" "10 * xe + xf \<le> 12" "1 \<le> 10 * xg + xh" "10 * xg + xh \<le> 31"
      "10 * xi + xj < 24" "10 * xk + xl < 60"
  shows "format_regex s =
     [(\<lparr>year = 1000 * xa + 100 * xb + 10 * xc + xd, month = 10 * xe + xf, day = 10 * xg + xh,
        hour = 10 * xi + xj, minute = 10 * xk + xl, second = 0\<rparr>, []),
      (\<lparr>year = 1000 * xa + 100 * xb + 10 * xc + xd, month = 10 * xe + xf, day = 10 * xg + xh,
        hour = 10 * xi + xj, minute = xk, second = 0\<rparr>, [l])]"
  unfolding format_regex_def s
  by (simp add: year_padded[OF dg(1-4)] month_padded[OF dg(5,6) rng(1,2)]
      day_padded[OF dg(7,8) rng(3,4) dg(9)] hour_padded[OF dg(9,10) rng(5)]
      minute_padded[OF dg(11,12) rng(6)])
lemma strict_strftime:
  assumes dg: "digit_of a = Some xa" "digit_of b = Some xb" "digit_of c = Some xc" "digit_of d = Some xd"
    "digit_of e = Some xe" "digit_of f = Some xf" "digit_of g = Some xg" "digit_of h = Some xh"
    "digit_of i = Some xi" "digit_of j = Some xj" "digit_of k = Some xk" "digit_of l = Some xl"
    and s: "s = [a, b, c, d, CHR ''-'', e, f, CHR ''-'', g, h, CHR '' '', i, j, CHR '':'', k, l]"
    and y: "1 \<le> xa"
  shows "strftime \<lparr>year = 1000 * xa + 100 * xb + 10 * xc + xd, month = 10 * xe + xf, day = 10 * xg + xh,
        hour = 10 * xi + xj, minute = 10 * xk + xl, second = 0\<rparr> = s @ '':00''"
proof -
  have z: "pad2 0 = ''00''" by code_simp
  show ?thesis
    unfolding s strftime_def
    by (simp add: decimal_digits[OF dg(1-4) y] pad2_digits[OF dg(5,6)] pad2_digits[OF dg(7,8)]
        pad2_digits[OF dg(9,10)] pad2_digits[OF dg(11,12)] z)
qed

lemma days_in_month_le: "days_in_month y m \<le> 31"
  by (simp add: days_in_month_def)

lemma valid_datetime_ranges:
  assumes "valid_datetime t"
  shows "1 \<le> month t" "month t \<le> 12" "1 \<le> day t" "day t \<le> 31" "hour t < 24" "minute t < 60"
proof -
  from assms have "day t \<le> days_in_month (year t) (month t)"
    by (simp add: valid_datetime_def)
  then show "day t \<le> 31" using days_in_month_le[of "year t" "month t"] by simp
qed (use assms in \<open>simp_all add: valid_datetime_def\<close>)

lemma strptime_valid: "strptime s = Some t \<Longrightarrow> valid_datetime t"
  by (auto simp: strptime_def split: list.splits prod.splits if_splits)

lemma strptime_strict_explicit:
  assumes dg: "digit_of a = Some xa" "digit_of b = Some xb" "digit_of c = Some xc" "digit_of d = Some xd"
    "digit_of e = Some xe" "digit_of f = Some xf" "digit_of g = Some xg" "digit_of h = Some xh"
    "digit_of i = Some xi" "digit_of j = Some xj" "digit_of k = Some xk" "digit_of l = Some xl"
    and s: "s = [a, b, c, d, CHR ''-'', e, f, CHR ''-'', g, h, CHR '' '', i, j, CHR '':'', k, l]"
    and v: "valid_datetime
          \<lparr>year = number (take 4 s), month = number (take 2 (drop 5 s)),
           day = number (take 2 (drop 8 s)), hour = number (take 2 (drop 11 s)),
           minute = number (take 2 (drop 14 s)), second = 0\<rparr>"
  shows "strptime s =
           Some \<lparr>year = number (take 4 s), month = number (take 2 (drop 5 s)),
                 day = number (take 2 (drop 8 s)), hour = number (take 2 (drop 11 s)),
                 minute = number (take 2 (drop 14 s)), second = 0\<rparr>
         \<and> (1000 \<le> number (take 4 s) \<longrightarrow>
              strftime \<lparr>year = number (take 4 s), month = number (take 2 (drop 5 s)),
                        day = number (take 2 (drop 8 s)), hour = number (take 2 (drop 11 s)),
                        minute = number (take 2 (drop 14 s)), second = 0\<rparr> = s @ '':00'')"
proof -
  let ?t = "\<lparr>year = 1000 * xa + 100 * xb + 10 * xc + xd, month = 10 * xe + xf,
             day = 10 * xg + xh, hour = 10 * xi + xj, minute = 10 * xk + xl, second = 0\<rparr>"
  have vt: "valid_datetime ?t"
    using v by (simp only: strict_numbers[OF dg s])
  have rng: "1 \<le> 10 * xe + xf" "10 * xe + xf \<le> 12" "1 \<le> 10 * xg + xh" "10 * xg + xh \<le> 31"
      "10 * xi + xj < 24" "10 * xk + xl < 60"
    using valid_datetime_ranges[OF vt] by simp_all
  have p: "strptime s = Some ?t"
    by (simp only: strptime_def strict_format_regex[OF dg s rng] list.case prod.case vt
          if_True if_False not_True_eq_False simp_thms)
  have f: "strftime ?t = s @ '':00''" if "1000 \<le> 1000 * xa + 100 * xb + 10 * xc + xd"
  proof -
    have "xb < 10" "xc < 10" "xd < 10" using dg(2-4) digit_of_Some(1) by auto
    with that have "1 \<le> xa" by arith
    then show ?thesis by (rule strict_strftime[OF dg s])
  qed
  show ?thesis
    unfolding strict_numbers[OF dg s] using p f by blast
qed

lemma strptime_strict:
  assumes "is_YYYY_MM_DD_HH_MM s"
  shows "strptime s =
           Some \<lparr>year = number (take 4 s), month = number (take 2 (drop 5 s)),
                 day = number (take 2 (drop 8 s)), hour = number (take 2 (drop 11 s)),
                 minute = number (take 2 (drop 14 s)), second = 0\<rparr>
         \<and> (1000 \<le> number (take 4 s) \<longrightarrow>
              strftime \<lparr>year = number (take 4 s), month = number (take 2 (drop 5 s)),
                        day = number (take 2 (drop 8 s)), hour = number (take 2 (drop 11 s)),
                        minute = number (take 2 (drop 14 s)), second = 0\<rparr> = s @ '':00'')"
proof -
  from assms have sh: "shape s = ''9999-99-99 99:99''"
    by (simp only: is_YYYY_MM_DD_HH_MM_def)
  from assms have v: "valid_datetime
          \<lparr>year = number (take 4 s), month = number (take 2 (drop 5 s)),
           day = number (take 2 (drop 8 s)), hour = number (take 2 (drop 11 s)),
           minute = number (take 2 (drop 14 s)), second = 0\<rparr>"
    by (simp only: is_YYYY_MM_DD_HH_MM_def)
  show ?thesis
  proof (rule shape_16[OF sh])
    fix a b c d e f g h i j k l xa xb xc xd xe xf xg xh xi xj xk xl
    assume s: "s = [a, b, c, d, CHR ''-'', e, f, CHR ''-'', g, h, CHR '' '', i, j, CHR '':'', k, l]"
      and dg: "digit_of a = Some xa" "digit_of b = Some xb" "digit_of c = Some xc" "digit_of d = Some xd"
      "digit_of e = Some xe" "digit_of f = Some xf" "digit_of g = Some xg" "digit_of h = Some xh"
      "digit_of i = Some xi" "digit_of j = Some xj" "digit_of k = Some xk" "digit_of l = Some xl"
    show ?thesis
      by (rule strptime_strict_explicit[OF dg s v])
  qed
qed

lemma strptime_strict_parses: "is_YYYY_MM_DD_HH_MM s \<Longrightarrow> strptime s \<noteq> None"
  using strptime_strict[of s] by simp


lemma digit_of_dchar: "digit_of (dchar n) = Some (n mod 10)"
proof -
  have "(48 + n mod 10) mod 256 = 48 + n mod 10"
    by (rule mod_less) (use mod_less_divisor[of 10 n] in linarith)
  then show ?thesis
    by (simp add: dchar_def digit_of_def)
qed

lemma digit_of_seps:
  "digit_of CHR ''-'' = None" "digit_of CHR '' '' = None" "digit_of CHR '':'' = None"
  by (simp_all add: digit_of_def)

lemma shape_decimal_step: "10 \<le> n \<Longrightarrow> shape (decimal n) = shape (decimal (n div 10)) @ ''9''"
  by (subst decimal.simps) (simp add: shape_def digit_of_dchar)

lemma shape_decimal_1: "n < 10 \<Longrightarrow> shape (decimal n) = ''9''"
  by (simp add: decimal_small shape_def digit_of_dchar)

lemma shape_decimal_2:
  assumes "10 \<le> n" "n < 100"
  shows "shape (decimal n) = ''99''"
proof -
  have "n div 10 < 10" using assms(2) by simp
  then show ?thesis using shape_decimal_step[OF assms(1)] shape_decimal_1 by simp
qed

lemma shape_decimal_3:
  assumes "100 \<le> n" "n < 1000"
  shows "shape (decimal n) = ''999''"
proof -
  have "10 \<le> n div 10" "n div 10 < 100" "10 \<le> n" using assms by simp_all
  then show ?thesis using shape_decimal_step[of n] shape_decimal_2 by simp
qed

lemma shape_decimal_4:
  assumes "1000 \<le> n" "n < 10000"
  shows "shape (decimal n) = ''9999''"
proof -
  have "100 \<le> n div 10" "n div 10 < 1000" "10 \<le> n" using assms by simp_all
  then show ?thesis using shape_decimal_step[of n] shape_decimal_3 by simp
qed

lemma shape_strftime: "shape (strftime t) = shape (decimal (year t)) @ ''-99-99 99:99:99''"
  by (simp add: strftime_def shape_def pad2_def digit_of_dchar digit_of_seps)


lemma strftime_carries_seconds:
  assumes "valid_datetime t"
  shows "carries_seconds (strftime t)"
proof -
  have y: "year t \<le> 9999" using assms by (simp add: valid_datetime_def)
  consider "year t < 10" | "10 \<le> year t" "year t < 100" | "100 \<le> year t" "year t < 1000"
    | "1000 \<le> year t" "year t < 10000"
    using y by linarith
  then show ?thesis
  proof cases
    case 1
    then show ?thesis by (simp add: carries_seconds_def shape_strftime shape_decimal_1)
  next
    case 2
    then show ?thesis by (simp add: carries_seconds_def shape_strftime shape_decimal_2)
  next
    case 3
    then show ?thesis by (simp add: carries_seconds_def shape_strftime shape_decimal_3)
  next
    case 4
    then show ?thesis by (simp add: carries_seconds_def shape_strftime shape_decimal_4)
  qed
qed

lemma strptime_carries_seconds: "strptime s = Some t \<Longrightarrow> carries_seconds (strftime t)"
  by (rule strftime_carries_seconds[OF strptime_valid])


subsection \<open>Rejected inserts\<close>

text \<open>
  C1. An \<^verbatim>\<open>add_new_flight\<close> whose origin id equals its destination id never
  inserts: the store it returns is the store it was given, so the flights table has
  the same rows and the same row count. It is refused with the format message when
  the departure time does not parse, and otherwise by the handler of the INSERT; when
  the id fits an SQLite INTEGER and a row key is free, the exception is the failed
  \<^verbatim>\<open>CHECK (origin_id <> destination_id)\<close>.
\<close>

theorem add_new_flight_same_origin_destination:
  "snd (add_new_flight s flight_num (Integer n) (Integer n) departure) = s
   \<and> length (flights (snd (add_new_flight s flight_num (Integer n) (Integer n) departure)))
       = length (flights s)
   \<and> (fst (add_new_flight s flight_num (Integer n) (Integer n) departure)
         = Invalid_datetime_format
       \<or> (\<exists>e. fst (add_new_flight s flight_num (Integer n) (Integer n) departure)
                = Failed ''Error adding flight'' e))
   \<and> (strptime departure \<noteq> None \<longrightarrow> in_int64 n \<longrightarrow> has_free_rowid (map f_flight_id (flights s))
        \<longrightarrow> fst (add_new_flight s flight_num (Integer n) (Integer n) departure)
            = Failed ''Error adding flight'' (IntegrityError CHECK_origin_destination))"
  by (auto simp: add_new_flight_def sql_insert_flight_def bind_int_def new_rowid_def
        has_free_rowid_def allowed_status_def
      split: option.splits sum.splits if_splits)

theorem add_new_flight_same_origin_destination_witness:
  "strptime ''2025-06-01 10:00'' \<noteq> None \<and> in_int64 1
   \<and> has_free_rowid (map f_flight_id (flights init_db))
   \<and> add_new_flight init_db ''BA900'' (Integer 1) (Integer 1) ''2025-06-01 10:00''
       = (Failed ''Error adding flight'' (IntegrityError CHECK_origin_destination), init_db)"
proof -
  have h1: "strptime ''2025-06-01 10:00'' \<noteq> None" by code_simp
  have h2: "in_int64 1" by (simp add: in_int64_def)
  have h3: "has_free_rowid (map f_flight_id (flights init_db))"
    by (simp add: has_free_rowid_def init_db_def)
  show ?thesis
    using h1 h2 h3
      add_new_flight_same_origin_destination
        [of init_db "''BA900''" 1 "''2025-06-01 10:00''"]
    by (metis prod.collapse)
qed


subsection \<open>Updates without fields\<close>

text \<open>
  C9. \<^verbatim>\<open>update_pilot\<close> and \<^verbatim>\<open>update_destination\<close> with every field left empty, for
  any pilot or destination id and any store: no statement runs, the store is returned
  as it was, and the operation returns without an error message (it prints nothing).
\<close>

theorem update_without_fields_is_silent: "update_pilot s pilot_id [] [] Empty_line = (Silent, s)
  \<and> update_destination s dest_id [] [] [] = (Silent, s)"
  by (simp add: update_pilot_def update_destination_def)


theorem update_without_fields_is_silent_witness:
  "update_pilot example_db (Number 1) [] [] Empty_line = (Silent, example_db)
   \<and> update_destination example_db (Number 2) [] [] [] = (Silent, example_db)"
  by (rule update_without_fields_is_silent)

subsection \<open>The guarded pilot delete\<close>

lemma delete_pilot_assignment_snd:
  "snd (delete_pilot_assignment st (Number i))
   = st\<lparr>pilot_assignments := filter (\<lambda>a. a_assignment_id a \<noteq> i) (pilot_assignments st)\<rparr>"
proof (cases "\<exists>a \<in> set (pilot_assignments st). a_assignment_id a = i")
  case True
  then have "filter (\<lambda>a. a_assignment_id a = i) (pilot_assignments st) \<noteq> []"
    by (simp add: filter_empty_conv)
  then show ?thesis
    by (simp add: delete_pilot_assignment_def commit_if_rows_def sql_delete_assignment_def)
next
  case False
  then have "filter (\<lambda>a. a_assignment_id a \<noteq> i) (pilot_assignments st) = pilot_assignments st"
    by (simp add: filter_id_conv)
  with False show ?thesis
    by (simp add: delete_pilot_assignment_def commit_if_rows_def sql_delete_assignment_def
        filter_empty_conv)
qed

lemma fold_delete_assignments:
  "fold (\<lambda>a st. snd (delete_pilot_assignment st (Number (a_assignment_id a)))) L s
   = s\<lparr>pilot_assignments :=
         filter (\<lambda>a. a_assignment_id a \<notin> a_assignment_id ` set L) (pilot_assignments s)\<rparr>"
proof (induction L arbitrary: s)
  case Nil
  show ?case by simp
next
  case (Cons x L)
  have flt: "filter (\<lambda>a. a_assignment_id a \<notin> a_assignment_id ` set L)
          (filter (\<lambda>a. a_assignment_id a \<noteq> a_assignment_id x) (pilot_assignments s))
        = filter (\<lambda>a. a_assignment_id a \<notin> a_assignment_id ` set (x # L)) (pilot_assignments s)"
    by (auto intro: filter_cong)
  have "fold (\<lambda>a st. snd (delete_pilot_assignment st (Number (a_assignment_id a)))) (x # L) s
        = fold (\<lambda>a st. snd (delete_pilot_assignment st (Number (a_assignment_id a)))) L
            (snd (delete_pilot_assignment s (Number (a_assignment_id x))))"
    by simp
  also have "\<dots> = (snd (delete_pilot_assignment s (Number (a_assignment_id x))))
      \<lparr>pilot_assignments :=
         filter (\<lambda>a. a_assignment_id a \<notin> a_assignment_id ` set L)
           (pilot_assignments (snd (delete_pilot_assignment s (Number (a_assignment_id x)))))\<rparr>"
    by (rule Cons.IH)
  also have "\<dots> = s\<lparr>pilot_assignments :=
         filter (\<lambda>a. a_assignment_id a \<notin> a_assignment_id ` set (x # L)) (pilot_assignments s)\<rparr>"
    using flt by (simp add: delete_pilot_assignment_snd)
  finally show ?case .
qed


text \<open>
  C5. For a pilot with \<open>n > 0\<close> assignment rows \<^verbatim>\<open>delete_pilot\<close> reports the count
  \<open>n\<close> and leaves the store, the pilot row included, as it was. After each of these
  assignments has been deleted with \<^verbatim>\<open>delete_pilot_assignment\<close>, the pilots table is
  still the same, and \<^verbatim>\<open>delete_pilot\<close> on the same id succeeds and removes the row.
\<close>

theorem delete_pilot_guarded:
  assumes "p \<in> set (pilots s)"
    and "n = length (filter (\<lambda>a. a_pilot_id a = p_pilot_id p) (pilot_assignments s))"
    and "0 < n"
  shows "delete_pilot s (Number (p_pilot_id p)) = (Has_assignments n, s)
    \<and> (let s' = fold (\<lambda>a st. snd (delete_pilot_assignment st (Number (a_assignment_id a))))
                   (filter (\<lambda>a. a_pilot_id a = p_pilot_id p) (pilot_assignments s)) s
       in pilots s' = pilots s
          \<and> fst (delete_pilot s' (Number (p_pilot_id p))) = Succeeded ''Pilot deleted successfully''
          \<and> p \<notin> set (pilots (snd (delete_pilot s' (Number (p_pilot_id p))))))"
proof -
  let ?L = "filter (\<lambda>a. a_pilot_id a = p_pilot_id p) (pilot_assignments s)"
  let ?s' = "fold (\<lambda>a st. snd (delete_pilot_assignment st (Number (a_assignment_id a)))) ?L s"
  have first: "delete_pilot s (Number (p_pilot_id p)) = (Has_assignments n, s)"
    using assms by (simp add: delete_pilot_def Let_def)
  have s': "?s' = s\<lparr>pilot_assignments :=
         filter (\<lambda>a. a_assignment_id a \<notin> a_assignment_id ` set ?L) (pilot_assignments s)\<rparr>"
    by (rule fold_delete_assignments)
  have none: "filter (\<lambda>a. a_pilot_id a = p_pilot_id p) (pilot_assignments ?s') = []"
    unfolding s' by (auto simp: filter_empty_conv)
  have pil: "pilots ?s' = pilots s"
    unfolding s' by simp
  have some: "filter (\<lambda>q. q = p_pilot_id p) (map p_pilot_id (pilots s)) \<noteq> []"
    using assms(1) by (auto simp: filter_empty_conv)
  have cnt: "0 < length (filter (\<lambda>q. p_pilot_id q = p_pilot_id p) (pilots s))"
    using assms(1) by (auto simp: filter_empty_conv)
  have second: "delete_pilot ?s' (Number (p_pilot_id p))
      = (Succeeded ''Pilot deleted successfully'',
         ?s'\<lparr>pilots := filter (\<lambda>q. p_pilot_id q \<noteq> p_pilot_id p) (pilots s)\<rparr>)"
    using none cnt pil
    by (simp add: delete_pilot_def Let_def commit_if_rows_def sql_delete_pilot_def)
  show ?thesis
    using first second pil by (simp add: Let_def)
qed


theorem delete_pilot_guarded_witness:
  "\<lparr>p_pilot_id = 1, p_name = ''Test Pilot'', p_license_id = ''X1'', p_years_experience = 0\<rparr>
     \<in> set (pilots example_db)
   \<and> (1::nat) = length (filter (\<lambda>a. a_pilot_id a = 1) (pilot_assignments example_db))
   \<and> delete_pilot example_db (Number 1) = (Has_assignments 1, example_db)"
proof -
  let ?p = "\<lparr>p_pilot_id = 1, p_name = ''Test Pilot'', p_license_id = ''X1'',
             p_years_experience = 0\<rparr>"
  have h1: "?p \<in> set (pilots example_db)" by (simp add: example_db_def)
  have h2: "(1::nat) = length (filter (\<lambda>a. a_pilot_id a = p_pilot_id ?p)
                                (pilot_assignments example_db))"
    by (simp add: example_db_def)
  have h3: "0 < (1::nat)" by simp
  show ?thesis
    using delete_pilot_guarded[OF h1 h2 h3] h1 h2 by simp
qed

subsection \<open>Examples of timestamps\<close>

lemma strptime_examples:
  "strptime ''2025-06-01 10:00'' = Some \<lparr>year = 2025, month = 6, day = 1, hour = 10, minute = 0, second = 0\<rparr>"
  "strptime ''2025-6-1 9:5'' = Some \<lparr>year = 2025, month = 6, day = 1, hour = 9, minute = 5, second = 0\<rparr>"
  "strptime ''2025/06/01 10:00'' = None"
  "strptime ''0999-12-31 23:59'' = Some \<lparr>year = 999, month = 12, day = 31, hour = 23, minute = 59, second = 0\<rparr>"
  by code_simp+

lemma strftime_examples:
  "strftime \<lparr>year = 2025, month = 6, day = 1, hour = 10, minute = 0, second = 0\<rparr> = ''2025-06-01 10:00:00''"
  "strftime \<lparr>year = 2025, month = 6, day = 1, hour = 9, minute = 5, second = 0\<rparr> = ''2025-06-01 09:05:00''"
  "strftime \<lparr>year = 2025, month = 6, day = Suc 0, hour = 10, minute = 0, second = 0\<rparr> = ''2025-06-01 10:00:00''"
  "strftime \<lparr>year = 2025, month = 6, day = Suc 0, hour = 9, minute = 5, second = 0\<rparr> = ''2025-06-01 09:05:00''"
  "strftime \<lparr>year = 999, month = 12, day = 31, hour = 23, minute = 59, second = 0\<rparr> = ''999-12-31 23:59:00''"
  "strftime \<lparr>year = 2026, month = 11, day = 4, hour = 12, minute = 30, second = 15\<rparr> = ''2026-11-04 12:30:15''"
  by code_simp+

lemma format_examples:
  "is_YYYY_MM_DD_HH_MM ''2025-06-01 10:00''"
  "\<not> is_YYYY_MM_DD_HH_MM ''2025-6-1 9:5''"
  "is_YYYY_MM_DD_HH_MM ''0999-12-31 23:59''"
  "\<not> is_YYYY_MM_DD_HH_MM_SS ''999-12-31 23:59:00''"
  "carries_seconds ''999-12-31 23:59:00''"
  by code_simp+

subsection \<open>Updating a flight\<close>

text \<open>
  C6. \<^verbatim>\<open>update_flight_info\<close> selects by flight number. For a new departure time that
  parses, or a new status of the allowed set: when rows carry the given flight number,
  one call writes the new value into every one of them, leaves every other row alone and
  reports success; when no row carries it, the call reports that the flight was not
  found and returns the store unchanged.
\<close>

theorem update_flight_info_all_matching:
  assumes "choice_in = Integer 1 \<and> strptime new_value \<noteq> None
           \<or> choice_in = Integer 2 \<and> new_value \<in> set allowed_status"
  shows "update_flight_info s flight_num choice_in new_value =
     (if \<exists>f \<in> set (flights s). f_flight_number f = flight_num
      then (Succeeded ''Flight updated successfully'',
            s\<lparr>flights := map (\<lambda>f. if f_flight_number f = flight_num
                                    then (if choice_in = Integer 1
                                          then f\<lparr>f_departure_time := strftime (the (strptime new_value))\<rparr>
                                          else f\<lparr>f_status := new_value\<rparr>)
                                    else f) (flights s)\<rparr>)
      else (Not_found ''Flight not found'', s))"
proof -
  have len: "(0 < length (filter (\<lambda>f. f_flight_number f = flight_num) (flights s)))
             = (\<exists>f \<in> set (flights s). f_flight_number f = flight_num)"
    by (auto simp: filter_empty_conv)
  from assms show ?thesis
  proof
    assume a: "choice_in = Integer 1 \<and> strptime new_value \<noteq> None"
    then obtain t where t: "strptime new_value = Some t" by auto
    show ?thesis
      using a t len
      by (simp add: update_flight_info_def sql_update_departure_time_def commit_if_rows_def)
  next
    assume a: "choice_in = Integer 2 \<and> new_value \<in> set allowed_status"
    show ?thesis
      using a len
      by (simp add: update_flight_info_def sql_update_status_def commit_if_rows_def)
  qed
qed

theorem update_flight_info_all_matching_witness:
  "(Integer 2 = Integer 1 \<and> strptime ''Delayed'' \<noteq> None
      \<or> Integer 2 = Integer 2 \<and> ''Delayed'' \<in> set allowed_status)
   \<and> fst (update_flight_info example_db ''BA900'' (Integer 2) ''Delayed'')
       = Succeeded ''Flight updated successfully''
   \<and> map f_status (flights (snd (update_flight_info example_db ''BA900'' (Integer 2) ''Delayed'')))
       = [''Delayed'', ''Delayed'']"
proof -
  have h: "Integer 2 = Integer 1 \<and> strptime ''Delayed'' \<noteq> None
      \<or> Integer 2 = Integer 2 \<and> ''Delayed'' \<in> set allowed_status"
    by (simp add: allowed_status_def)
  show ?thesis
    using h update_flight_info_all_matching[OF h, of example_db "''BA900''"]
    by (simp add: example_db_def)
qed

subsection \<open>Adding a flight\<close>

lemma new_rowid_free: "has_free_rowid ids \<Longrightarrow> \<exists>r. new_rowid ids = Inr r"
  by (cases "ids = []") (simp_all add: new_rowid_def has_free_rowid_def)

lemma add_new_flight_stores:
  assumes "strptime departure = Some dt" and "in_int64 origin_id" and "in_int64 dest_id"
    and "origin_id \<noteq> dest_id" and "new_rowid (map f_flight_id (flights s)) = Inr rowid"
  shows "add_new_flight s flight_num (Integer origin_id) (Integer dest_id) departure
         = (Succeeded ''Flight added successfully'',
            s\<lparr>flights := flights s @
               [\<lparr>f_flight_id = rowid, f_flight_number = flight_num, f_origin_id = origin_id,
                 f_destination_id = dest_id, f_departure_time = strftime dt,
                 f_status = ''Scheduled''\<rparr>]\<rparr>)"
  using assms
  by (simp add: add_new_flight_def sql_insert_flight_def bind_int_def allowed_status_def)

text \<open>
  C7. For two rows of \<^verbatim>\<open>destinations\<close> with distinct ids and a departure time in the
  format \<^verbatim>\<open>YYYY-MM-DD HH:MM\<close>, \<^verbatim>\<open>add_new_flight\<close> (which always inserts the status
  Scheduled) succeeds: the departure time parses, the flights table is the old one
  followed by one row with the given flight number and ids, the parsed time as
  \<^verbatim>\<open>strftime\<close> prints it and the status Scheduled, and the listing of all flights then
  shows the new flight between the two cities with that time and the status Scheduled.
  The ids are SQLite integers and the flights table has a free row key.
\<close>

theorem add_new_flight_valid_succeeds:
  assumes "orig \<in> set (destinations s)" and "dest \<in> set (destinations s)"
    and "d_destination_id orig \<noteq> d_destination_id dest"
    and "in_int64 (d_destination_id orig)" and "in_int64 (d_destination_id dest)"
    and "is_YYYY_MM_DD_HH_MM departure"
    and "has_free_rowid (map f_flight_id (flights s))"
  shows "strptime departure \<noteq> None
         \<and> fst (add_new_flight s flight_num (Integer (d_destination_id orig))
                (Integer (d_destination_id dest)) departure)
           = Succeeded ''Flight added successfully''
         \<and> (\<exists>rowid. flights (snd (add_new_flight s flight_num (Integer (d_destination_id orig))
                                    (Integer (d_destination_id dest)) departure))
              = flights s @
                [\<lparr>f_flight_id = rowid, f_flight_number = flight_num,
                  f_origin_id = d_destination_id orig, f_destination_id = d_destination_id dest,
                  f_departure_time = strftime (the (strptime departure)),
                  f_status = ''Scheduled''\<rparr>])
         \<and> (flight_num, d_city orig, d_city dest, strftime (the (strptime departure)),
             ''Scheduled'')
             \<in> set (view_all_flights
                      (snd (add_new_flight s flight_num (Integer (d_destination_id orig))
                              (Integer (d_destination_id dest)) departure)))"
proof -
  obtain t where t: "strptime departure = Some t"
    using strptime_strict_parses[OF assms(6)] by blast
  obtain rowid where r: "new_rowid (map f_flight_id (flights s)) = Inr rowid"
    using new_rowid_free[OF assms(7)] by blast
  let ?row = "\<lparr>f_flight_id = rowid, f_flight_number = flight_num,
                f_origin_id = d_destination_id orig, f_destination_id = d_destination_id dest,
                f_departure_time = strftime t, f_status = ''Scheduled''\<rparr>"
  have res: "add_new_flight s flight_num (Integer (d_destination_id orig))
                (Integer (d_destination_id dest)) departure
             = (Succeeded ''Flight added successfully'', s\<lparr>flights := flights s @ [?row]\<rparr>)"
    by (rule add_new_flight_stores[OF t assms(4,5,3) r])
  have "(flight_num, d_city orig, d_city dest, strftime t, ''Scheduled'')
          \<in> set (view_all_flights (s\<lparr>flights := flights s @ [?row]\<rparr>))"
    using assms(1,2) by (force simp: view_all_flights_def)
  with res t show ?thesis by simp
qed

theorem add_new_flight_valid_succeeds_witness:
  "\<lparr>d_destination_id = 1, d_city = ''London'', d_country = ''UK'', d_airport_code = ''LHR''\<rparr>
     \<in> set (destinations example_db)
   \<and> \<lparr>d_destination_id = 2, d_city = ''Paris'', d_country = ''France'', d_airport_code = ''CDG''\<rparr>
     \<in> set (destinations example_db)
   \<and> (1::int) \<noteq> 2 \<and> in_int64 1 \<and> in_int64 2
   \<and> is_YYYY_MM_DD_HH_MM ''2025-06-01 10:00''
   \<and> has_free_rowid (map f_flight_id (flights example_db))
   \<and> fst (add_new_flight example_db ''BA901'' (Integer 1) (Integer 2) ''2025-06-01 10:00'')
       = Succeeded ''Flight added successfully''
   \<and> (''BA901'', ''London'', ''Paris'', ''2025-06-01 10:00:00'', ''Scheduled'')
       \<in> set (view_all_flights
                (snd (add_new_flight example_db ''BA901'' (Integer 1) (Integer 2)
                        ''2025-06-01 10:00'')))"
proof -
  let ?o = "\<lparr>d_destination_id = 1, d_city = ''London'', d_country = ''UK'', d_airport_code = ''LHR''\<rparr>"
  let ?d = "\<lparr>d_destination_id = 2, d_city = ''Paris'', d_country = ''France'', d_airport_code = ''CDG''\<rparr>"
  have h1: "?o \<in> set (destinations example_db)" by (simp add: example_db_def)
  have h2: "?d \<in> set (destinations example_db)" by (simp add: example_db_def)
  have h3: "d_destination_id ?o \<noteq> d_destination_id ?d" by simp
  have h4: "in_int64 (d_destination_id ?o)" by (simp add: in_int64_def)
  have h5: "in_int64 (d_destination_id ?d)" by (simp add: in_int64_def)
  have h6: "is_YYYY_MM_DD_HH_MM ''2025-06-01 10:00''" by (rule format_examples)
  have h7: "has_free_rowid (map f_flight_id (flights example_db))"
    by (simp add: has_free_rowid_def example_db_def)
  show ?thesis
    using add_new_flight_valid_succeeds[OF h1 h2 h3 h4 h5 h6 h7, of "''BA901''"] h1 h2 h4 h5 h6 h7
    by (simp add: strptime_examples strftime_examples)
qed

text \<open>
  C2. The claim asks that an origin or destination id that references no destination
  row be refused. The FOREIGN KEY clauses of the flights table say so, but no
  connection enables their enforcement: in the example store, which has no destination
  99, a flight from 1 to 99 is inserted and reported as added.
\<close>

theorem add_new_flight_unknown_destination_inserted:
  "99 \<notin> d_destination_id ` set (destinations example_db)
   \<and> add_new_flight example_db ''BA901'' (Integer 1) (Integer 99) ''2025-06-01 10:00''
     = (Succeeded ''Flight added successfully'',
        example_db\<lparr>flights := flights example_db @
          [\<lparr>f_flight_id = 3, f_flight_number = ''BA901'', f_origin_id = 1, f_destination_id = 99,
            f_departure_time = ''2025-06-01 10:00:00'', f_status = ''Scheduled''\<rparr>]\<rparr>)"
  by (simp add: add_new_flight_def sql_insert_flight_def bind_int_def in_int64_def new_rowid_def
      allowed_status_def strptime_examples strftime_examples example_db_def)

subsection \<open>Timestamps that do not parse\<close>

text \<open>
  C3, as stated, fails: \<^verbatim>\<open>2025-6-1 9:5\<close> is not in the format \<^verbatim>\<open>YYYY-MM-DD HH:MM\<close>,
  yet \<^verbatim>\<open>strptime\<close> reads it, and all three operations accept it and write
  \<^verbatim>\<open>2025-06-01 09:05:00\<close>.
\<close>

theorem lenient_timestamp_accepted:
  "\<not> is_YYYY_MM_DD_HH_MM ''2025-6-1 9:5''
   \<and> add_new_flight example_db ''BA901'' (Integer 1) (Integer 2) ''2025-6-1 9:5''
     = (Succeeded ''Flight added successfully'',
        example_db\<lparr>flights := flights example_db @
          [\<lparr>f_flight_id = 3, f_flight_number = ''BA901'', f_origin_id = 1, f_destination_id = 2,
            f_departure_time = ''2025-06-01 09:05:00'', f_status = ''Scheduled''\<rparr>]\<rparr>)
   \<and> fst (update_flight_info example_db ''BA900'' (Integer 1) ''2025-6-1 9:5'')
       = Succeeded ''Flight updated successfully''
   \<and> fst (assign_pilot example_db example_now (Integer 2) (Integer 1) ''2025-6-1 9:5'')
       = Succeeded ''Pilot assigned successfully''"
proof -
  have st: "strip ''2025-6-1 9:5'' = ''2025-6-1 9:5''" by code_simp
  show ?thesis
    by (simp add: format_examples add_new_flight_def sql_insert_flight_def bind_int_def in_int64_def
        new_rowid_def allowed_status_def strptime_examples strftime_examples example_db_def
        update_flight_info_def sql_update_departure_time_def commit_if_rows_def
        assign_pilot_def validate_flight_id_exists_def validate_pilot_exists_def st
        sql_insert_assignment_def)
qed

text \<open>
  C3, amended. For every string that \<^verbatim>\<open>strptime\<close> with \<^verbatim>\<open>%Y-%m-%d %H:%M\<close> rejects,
  \<^verbatim>\<open>add_new_flight\<close> and the departure-time branch of \<^verbatim>\<open>update_flight_info\<close> print the
  format message and return the store unchanged. \<^verbatim>\<open>assign_pilot\<close> does the same when
  the stripped date is such a string and is not blank, provided both ids exist (the date
  is only asked for then); in every case it returns the store unchanged.
\<close>

theorem rejected_timestamp_leaves_store:
  assumes "strptime ts = None"
  shows "add_new_flight s flight_num (Integer origin_id) (Integer dest_id) ts
           = (Invalid_datetime_format, s)
    \<and> update_flight_info s flight_num (Integer 1) ts = (Invalid_datetime_format, s)
    \<and> (strip date_in = ts \<and> ts \<noteq> [] \<and> in_int64 flight_id \<and> in_int64 pilot_id
        \<and> (\<exists>f \<in> set (flights s). f_flight_id f = flight_id)
        \<and> (\<exists>p \<in> set (pilots s). p_pilot_id p = pilot_id)
        \<longrightarrow> assign_pilot s now (Integer flight_id) (Integer pilot_id) date_in
            = (Invalid_datetime_format, s))
    \<and> (strip date_in = ts \<and> ts \<noteq> []
        \<longrightarrow> snd (assign_pilot s now flight_in pilot_in date_in) = s)"
proof -
  have a: "add_new_flight s flight_num (Integer origin_id) (Integer dest_id) ts
           = (Invalid_datetime_format, s)"
    using assms by (simp add: add_new_flight_def)
  have u: "update_flight_info s flight_num (Integer 1) ts = (Invalid_datetime_format, s)"
    using assms by (simp add: update_flight_info_def)
  have p1: "strip date_in = ts \<and> ts \<noteq> [] \<and> in_int64 flight_id \<and> in_int64 pilot_id
        \<and> (\<exists>f \<in> set (flights s). f_flight_id f = flight_id)
        \<and> (\<exists>p \<in> set (pilots s). p_pilot_id p = pilot_id)
        \<longrightarrow> assign_pilot s now (Integer flight_id) (Integer pilot_id) date_in
            = (Invalid_datetime_format, s)"
    using assms
    by (auto simp: assign_pilot_def validate_flight_id_exists_def validate_pilot_exists_def
        bind_int_def)
  have p2: "strip date_in = ts \<and> ts \<noteq> []
        \<longrightarrow> snd (assign_pilot s now flight_in pilot_in date_in) = s"
    using assms
    by (auto simp: assign_pilot_def split: sum.splits bool.splits)
  from a u p1 p2 show ?thesis by blast
qed

theorem rejected_timestamp_leaves_store_witness:
  "strptime ''2025/06/01 10:00'' = None
   \<and> add_new_flight example_db ''BA901'' (Integer 1) (Integer 2) ''2025/06/01 10:00''
       = (Invalid_datetime_format, example_db)
   \<and> update_flight_info example_db ''BA900'' (Integer 1) ''2025/06/01 10:00''
       = (Invalid_datetime_format, example_db)"
  using rejected_timestamp_leaves_store[of "''2025/06/01 10:00''" example_db _ 1 2] strptime_examples(3)
  by blast

subsection \<open>What the operations preserve\<close>

lemma preserves_refl: "preserves s s"
  by (simp add: preserves_def)

lemma preserves_trans: "preserves s t \<Longrightarrow> preserves t u \<Longrightarrow> preserves s u"
  by (simp add: preserves_def)

lemma preserves_same_tables:
  "flights s' = flights s \<Longrightarrow> pilot_assignments s' = pilot_assignments s \<Longrightarrow> preserves s s'"
  by (simp add: preserves_def timestamps_carry_seconds_def assignment_pairs_unique_def)

lemma sql_insert_flight_preserves:
  assumes "sql_insert_flight (flight_num, origin_id, dest_id, departure, status) s = Inr s'"
    and "carries_seconds departure"
  shows "preserves s s'"
  using assms
  by (auto simp: sql_insert_flight_def preserves_def timestamps_carry_seconds_def
      assignment_pairs_unique_def split: sum.splits if_splits)

lemma sql_insert_assignment_preserves:
  assumes "sql_insert_assignment (flight_id, pilot_id, assignment_date) s = Inr s'"
    and "carries_seconds assignment_date"
  shows "preserves s s'"
  using assms
  by (auto simp: sql_insert_assignment_def preserves_def timestamps_carry_seconds_def
      assignment_pairs_unique_def split: sum.splits if_splits)

lemma sql_insert_pilot_preserves: "sql_insert_pilot row s = Inr s' \<Longrightarrow> preserves s s'"
  by (rule preserves_same_tables)
    (auto simp: sql_insert_pilot_def split: sum.splits if_splits prod.splits)

lemma sql_insert_destination_preserves: "sql_insert_destination row s = Inr s' \<Longrightarrow> preserves s s'"
  by (rule preserves_same_tables)
    (auto simp: sql_insert_destination_def split: sum.splits if_splits prod.splits)

lemma execute_each_preserves:
  assumes "\<And>r s s'. r \<in> set rs \<Longrightarrow> ins r s = Inr s' \<Longrightarrow> preserves s s'"
    and "execute_each ins rs s = Inr s'"
  shows "preserves s s'"
  using assms
proof (induction rs arbitrary: s)
  case Nil
  then show ?case by (simp add: preserves_refl)
next
  case (Cons r rs)
  from Cons.prems(2) obtain s1 where s1: "ins r s = Inr s1" "execute_each ins rs s1 = Inr s'"
    by (auto split: sum.splits)
  have p1: "preserves s s1" using Cons.prems(1)[of r s s1] s1(1) by simp
  have "preserves s1 s'"
  proof (rule Cons.IH[OF _ s1(2)])
    fix r' t t' assume "r' \<in> set rs" "ins r' t = Inr t'"
    then show "preserves t t'" using Cons.prems(1)[of r' t t'] by simp
  qed
  with p1 show ?case by (rule preserves_trans)
qed

lemma sample_flights_carry_seconds:
  "\<forall>r \<in> set sample_flights. carries_seconds (fst (snd (snd (snd r))))"
  unfolding list_all_iff[symmetric] by code_simp

lemma sample_assignments_carry_seconds:
  "\<forall>r \<in> set sample_assignments. carries_seconds (snd (snd r))"
  unfolding list_all_iff[symmetric] by code_simp

lemma populate_sample_data_preserves: "preserves s (snd (populate_sample_data s))"
proof (cases "fst (populate_sample_data s)")
  case (Succeeded m)
  then obtain s1 s2 s3 s4 where
    e: "execute_each sql_insert_pilot sample_pilots s = Inr s1"
       "execute_each sql_insert_destination sample_destinations s1 = Inr s2"
       "execute_each sql_insert_flight sample_flights s2 = Inr s3"
       "execute_each sql_insert_assignment sample_assignments s3 = Inr s4"
    and r: "snd (populate_sample_data s) = s4"
    by (auto simp: populate_sample_data_def split: sum.splits)
  have i1: "preserves s s1"
    using execute_each_preserves[OF _ e(1)] sql_insert_pilot_preserves by blast
  have i2: "preserves s1 s2"
    using execute_each_preserves[OF _ e(2)] sql_insert_destination_preserves by blast
  have i3: "preserves s2 s3"
  proof (rule execute_each_preserves[OF _ e(3)])
    fix r s s' assume a: "r \<in> set sample_flights" "sql_insert_flight r s = Inr s'"
    obtain fn o' d dep st where rr: "r = (fn, o', d, dep, st)" by (cases r) auto
    have "carries_seconds dep" using sample_flights_carry_seconds a(1) rr by force
    then show "preserves s s'" using sql_insert_flight_preserves a(2) rr by blast
  qed
  have i4: "preserves s3 s4"
  proof (rule execute_each_preserves[OF _ e(4)])
    fix r s s' assume a: "r \<in> set sample_assignments" "sql_insert_assignment r s = Inr s'"
    obtain f p dt where rr: "r = (f, p, dt)" by (cases r) auto
    have "carries_seconds dt" using sample_assignments_carry_seconds a(1) rr by force
    then show "preserves s s'" using sql_insert_assignment_preserves a(2) rr by blast
  qed
  show ?thesis
    using preserves_trans[OF preserves_trans[OF preserves_trans[OF i1 i2] i3] i4] r by simp
qed (auto simp: populate_sample_data_def preserves_refl split: sum.splits)

lemma add_new_flight_preserves:
  "preserves s (snd (add_new_flight s flight_num origin_in dest_in departure))"
  by (auto simp: add_new_flight_def preserves_refl
      intro: sql_insert_flight_preserves strptime_carries_seconds
      split: sum.splits option.splits)

lemma commit_if_rows_preserves:
  "preserves s (snd res) \<Longrightarrow> preserves s (snd (commit_if_rows s res a b))"
  by (simp add: commit_if_rows_def preserves_refl)

lemma update_flight_info_preserves:
  "preserves s (snd (update_flight_info s flight_num choice_in new_value))"
proof -
  have d: "\<And>t. strptime new_value = Some t \<Longrightarrow>
        preserves s (s\<lparr>flights := map (\<lambda>f. if f_flight_number f = flight_num
                                  then f\<lparr>f_departure_time := strftime t\<rparr> else f) (flights s)\<rparr>)"
    by (auto simp: preserves_def timestamps_carry_seconds_def assignment_pairs_unique_def
        intro: strptime_carries_seconds)
  have st: "preserves s (s\<lparr>flights := map (\<lambda>f. if f_flight_number f = flight_num
                                  then f\<lparr>f_status := new_value\<rparr> else f) (flights s)\<rparr>)"
    by (auto simp: preserves_def timestamps_carry_seconds_def assignment_pairs_unique_def)
  show ?thesis
    using d st
    by (auto simp: update_flight_info_def sql_update_departure_time_def sql_update_status_def
        preserves_refl intro!: commit_if_rows_preserves split: sum.splits option.splits)
qed

lemma delete_flight_preserves: "preserves s (snd (delete_flight s flight_num))"
  unfolding delete_flight_def
  by (rule commit_if_rows_preserves)
    (auto simp: sql_delete_flights_def preserves_def timestamps_carry_seconds_def
      assignment_pairs_unique_def)

lemma delete_pilot_assignment_preserves:
  "preserves s (snd (delete_pilot_assignment s assignment_id))"
  unfolding delete_pilot_assignment_def
  by (rule commit_if_rows_preserves)
    (auto simp: sql_delete_assignment_def preserves_def timestamps_carry_seconds_def
      assignment_pairs_unique_def distinct_map_filter)

lemma assign_pilot_preserves:
  "valid_datetime now \<Longrightarrow> preserves s (snd (assign_pilot s now flight_in pilot_in date_in))"
  by (auto simp: assign_pilot_def preserves_refl
      intro: sql_insert_assignment_preserves strftime_carries_seconds strptime_carries_seconds
      split: sum.splits option.splits bool.splits if_splits)

lemma add_destination_preserves: "preserves s (snd (add_destination s city country airport_code))"
  by (auto simp: add_destination_def preserves_refl intro: sql_insert_destination_preserves
      split: sum.splits)

lemma update_destination_preserves:
  "preserves s (snd (update_destination s dest_id city country airport_code))"
  by (rule preserves_same_tables) (simp_all add: update_destination_def split: sum.split)

lemma manage_destinations_preserves:
  "preserves s (snd (manage_destinations s choice_in dest_id city country airport_code))"
  by (simp add: manage_destinations_def preserves_refl add_destination_preserves
      update_destination_preserves split: sum.split)

lemma add_pilot_preserves: "preserves s (snd (add_pilot s name license_id years_exp))"
  by (auto simp: add_pilot_def preserves_refl intro: sql_insert_pilot_preserves
      split: sum.splits)

lemma update_pilot_preserves:
  "preserves s (snd (update_pilot s pilot_id name license_id years_exp))"
  by (rule preserves_same_tables) (simp_all add: update_pilot_def split: sum.split)

lemma delete_pilot_preserves: "preserves s (snd (delete_pilot s pilot_id))"
  by (rule preserves_same_tables)
    (simp_all add: delete_pilot_def Let_def commit_if_rows_def sql_delete_pilot_def)

lemma manage_pilots_preserves:
  "preserves s (snd (manage_pilots s choice_in pilot_id name license_id years_exp))"
  by (simp add: manage_pilots_def preserves_refl add_pilot_preserves update_pilot_preserves
      delete_pilot_preserves split: sum.split)

lemma reachable_invariants:
  "reachable s \<Longrightarrow> timestamps_carry_seconds s \<and> assignment_pairs_unique s"
proof (induction rule: reachable.induct)
  case fresh
  show ?case
    by (simp add: init_db_def timestamps_carry_seconds_def assignment_pairs_unique_def)
next
  case (menu_1 s flight_num origin_in dest_in departure)
  then show ?case using add_new_flight_preserves[of s flight_num origin_in dest_in departure]
    by (simp add: preserves_def)
next
  case (menu_3 s flight_num choice_in new_value)
  then show ?case using update_flight_info_preserves[of s flight_num choice_in new_value]
    by (simp add: preserves_def)
next
  case (menu_4 s now flight_in pilot_in date_in)
  then show ?case
    using assign_pilot_preserves[where s = s and now = now and flight_in = flight_in
        and pilot_in = pilot_in and date_in = date_in]
    by (simp add: preserves_def)
next
  case (menu_6 s choice_in dest_id city country airport_code)
  then show ?case
    using manage_destinations_preserves[of s choice_in dest_id city country airport_code]
    by (simp add: preserves_def)
next
  case (menu_7 s flight_num)
  then show ?case using delete_flight_preserves[of s flight_num]
    by (simp add: preserves_def)
next
  case (menu_11 s choice_in pilot_id name license_id years_exp)
  then show ?case
    using manage_pilots_preserves[of s choice_in pilot_id name license_id years_exp]
    by (simp add: preserves_def)
next
  case (menu_12 s assignment_id)
  then show ?case using delete_pilot_assignment_preserves[of s assignment_id]
    by (simp add: preserves_def)
next
  case (menu_13 s)
  then show ?case using populate_sample_data_preserves[of s]
    by (simp add: preserves_def)
qed



subsection \<open>Assigning a pilot\<close>

lemma bind_int_Inr: "bind_int n = Inr m \<Longrightarrow> m = n"
  by (simp add: bind_int_def split: if_splits)

lemma assign_pilot_success:
  assumes "in_int64 F" and "in_int64 P"
    and "\<exists>f \<in> set (flights s). f_flight_id f = F"
    and "\<exists>p \<in> set (pilots s). p_pilot_id p = P"
    and "\<forall>a \<in> set (pilot_assignments s). \<not> (a_flight_id a = F \<and> a_pilot_id a = P)"
    and "new_rowid (map a_assignment_id (pilot_assignments s)) = Inr rowid"
    and "(if strip d = [] then Some (strftime now) else map_option strftime (strptime (strip d)))
         = Some stamp"
  shows "assign_pilot s now (Integer F) (Integer P) d
         = (Succeeded ''Pilot assigned successfully'',
            s\<lparr>pilot_assignments := pilot_assignments s @
               [\<lparr>a_assignment_id = rowid, a_flight_id = F, a_pilot_id = P,
                 a_assignment_date = stamp\<rparr>]\<rparr>)"
proof -
  have v1: "validate_flight_id_exists s F = Inr True"
    using assms(1,3) by (simp add: validate_flight_id_exists_def bind_int_def)
  have v2: "validate_pilot_exists s P = Inr True"
    using assms(2,4) by (simp add: validate_pilot_exists_def bind_int_def)
  have ins: "sql_insert_assignment (F, P, stamp) s
             = Inr (s\<lparr>pilot_assignments := pilot_assignments s @
               [\<lparr>a_assignment_id = rowid, a_flight_id = F, a_pilot_id = P,
                 a_assignment_date = stamp\<rparr>]\<rparr>)"
    using assms(1,2,5,6) by (auto simp: sql_insert_assignment_def bind_int_def)
  show ?thesis
    unfolding assign_pilot_def by (simp add: v1 v2 assms(7) ins)
qed

lemma assign_pilot_duplicate:
  assumes "\<exists>a \<in> set (pilot_assignments s). a_flight_id a = F \<and> a_pilot_id a = P"
  shows "snd (assign_pilot s now (Integer F) (Integer P) d) = s"
    and "\<forall>m. fst (assign_pilot s now (Integer F) (Integer P) d) \<noteq> Succeeded m"
proof -
  have ins: "\<And>stamp x. sql_insert_assignment (F, P, stamp) s \<noteq> Inr x"
    using assms by (auto simp: sql_insert_assignment_def split: sum.splits dest!: bind_int_Inr)
  show "snd (assign_pilot s now (Integer F) (Integer P) d) = s"
    unfolding assign_pilot_def
    by (simp add: ins split: sum.split bool.split option.split)
  show "\<forall>m. fst (assign_pilot s now (Integer F) (Integer P) d) \<noteq> Succeeded m"
    unfolding assign_pilot_def
    by (simp add: ins split: sum.split bool.split option.split)
qed

lemma assign_pilot_duplicate_error:
  assumes "\<exists>a \<in> set (pilot_assignments s). a_flight_id a = F \<and> a_pilot_id a = P"
    and "in_int64 F" and "in_int64 P"
    and "\<exists>f \<in> set (flights s). f_flight_id f = F"
    and "\<exists>p \<in> set (pilots s). p_pilot_id p = P"
    and "strip d = [] \<or> strptime (strip d) \<noteq> None"
    and "has_free_rowid (map a_assignment_id (pilot_assignments s))"
  shows "fst (assign_pilot s now (Integer F) (Integer P) d)
         = Failed ''Error assigning pilot'' (IntegrityError UNIQUE_flight_pilot)"
proof -
  have v1: "validate_flight_id_exists s F = Inr True"
    using assms(2,4) by (simp add: validate_flight_id_exists_def bind_int_def)
  have v2: "validate_pilot_exists s P = Inr True"
    using assms(3,5) by (simp add: validate_pilot_exists_def bind_int_def)
  obtain rowid where r: "new_rowid (map a_assignment_id (pilot_assignments s)) = Inr rowid"
    using new_rowid_free[OF assms(7)] by blast
  have ins: "\<And>stamp. sql_insert_assignment (F, P, stamp) s = Inl (IntegrityError UNIQUE_flight_pilot)"
    using assms(1,2,3) r by (auto simp: sql_insert_assignment_def bind_int_def)
  obtain stamp where st: "(if strip d = [] then Some (strftime now)
            else map_option strftime (strptime (strip d))) = Some stamp"
    using assms(6) by (cases "strip d = []") auto
  show ?thesis
    unfolding assign_pilot_def by (simp add: v1 v2 st ins)
qed

text \<open>
  C4. For a flight id and a pilot id that exist (and fit an SQLite integer), with no
  assignment row for the pair, a free row key and a date that is blank or parses,
  \<^verbatim>\<open>assign_pilot\<close> succeeds and the table then holds exactly one row for the pair. A
  second \<^verbatim>\<open>assign_pilot\<close> for the same pair, whatever its date, does not succeed and
  returns the store unchanged; with a date that is blank or parses (and a free row key)
  the error is the failed \<^verbatim>\<open>UNIQUE(flight_id, pilot_id)\<close>. In every store the program
  reaches from a fresh file, no two assignment rows share flight and pilot.
\<close>

theorem assign_pilot_twice_rejected:
  "(in_int64 F \<and> in_int64 P
     \<and> (\<exists>f \<in> set (flights s). f_flight_id f = F)
     \<and> (\<exists>p \<in> set (pilots s). p_pilot_id p = P)
     \<and> (\<forall>a \<in> set (pilot_assignments s). \<not> (a_flight_id a = F \<and> a_pilot_id a = P))
     \<and> has_free_rowid (map a_assignment_id (pilot_assignments s))
     \<and> (strip date_first = [] \<or> strptime (strip date_first) \<noteq> None)
    \<longrightarrow> fst (assign_pilot s now_first (Integer F) (Integer P) date_first)
          = Succeeded ''Pilot assigned successfully''
        \<and> (let s1 = snd (assign_pilot s now_first (Integer F) (Integer P) date_first) in
             length (filter (\<lambda>a. a_flight_id a = F \<and> a_pilot_id a = P) (pilot_assignments s1)) = 1
             \<and> snd (assign_pilot s1 now_second (Integer F) (Integer P) date_second) = s1
             \<and> (\<forall>m. fst (assign_pilot s1 now_second (Integer F) (Integer P) date_second) \<noteq> Succeeded m)
             \<and> ((strip date_second = [] \<or> strptime (strip date_second) \<noteq> None)
                  \<and> has_free_rowid (map a_assignment_id (pilot_assignments s1))
                 \<longrightarrow> fst (assign_pilot s1 now_second (Integer F) (Integer P) date_second)
                     = Failed ''Error assigning pilot'' (IntegrityError UNIQUE_flight_pilot))))
   \<and> (reachable s' \<longrightarrow> assignment_pairs_unique s')"
proof (intro conjI impI)
  assume h: "in_int64 F \<and> in_int64 P
     \<and> (\<exists>f \<in> set (flights s). f_flight_id f = F)
     \<and> (\<exists>p \<in> set (pilots s). p_pilot_id p = P)
     \<and> (\<forall>a \<in> set (pilot_assignments s). \<not> (a_flight_id a = F \<and> a_pilot_id a = P))
     \<and> has_free_rowid (map a_assignment_id (pilot_assignments s))
     \<and> (strip date_first = [] \<or> strptime (strip date_first) \<noteq> None)"
  then obtain rowid where r: "new_rowid (map a_assignment_id (pilot_assignments s)) = Inr rowid"
    using new_rowid_free by blast
  obtain stamp where st: "(if strip date_first = [] then Some (strftime now_first)
            else map_option strftime (strptime (strip date_first))) = Some stamp"
    using h by (cases "strip date_first = []") auto
  let ?row = "\<lparr>a_assignment_id = rowid, a_flight_id = F, a_pilot_id = P,
                a_assignment_date = stamp\<rparr>"
  let ?s1 = "s\<lparr>pilot_assignments := pilot_assignments s @ [?row]\<rparr>"
  have first: "assign_pilot s now_first (Integer F) (Integer P) date_first
               = (Succeeded ''Pilot assigned successfully'', ?s1)"
    using h assign_pilot_success[OF _ _ _ _ _ r st] by blast
  show "fst (assign_pilot s now_first (Integer F) (Integer P) date_first)
          = Succeeded ''Pilot assigned successfully''"
    using first by simp
  have ex: "\<exists>a \<in> set (pilot_assignments ?s1). a_flight_id a = F \<and> a_pilot_id a = P"
    by simp
  have none: "filter (\<lambda>a. a_flight_id a = F \<and> a_pilot_id a = P) (pilot_assignments s) = []"
    using h by (auto simp: filter_empty_conv)
  have one: "length (filter (\<lambda>a. a_flight_id a = F \<and> a_pilot_id a = P)
                       (pilot_assignments ?s1)) = 1"
    using none by simp
  have err: "(strip date_second = [] \<or> strptime (strip date_second) \<noteq> None)
                  \<and> has_free_rowid (map a_assignment_id (pilot_assignments ?s1))
                 \<longrightarrow> fst (assign_pilot ?s1 now_second (Integer F) (Integer P) date_second)
                     = Failed ''Error assigning pilot'' (IntegrityError UNIQUE_flight_pilot)"
  proof
    assume a: "(strip date_second = [] \<or> strptime (strip date_second) \<noteq> None)
                  \<and> has_free_rowid (map a_assignment_id (pilot_assignments ?s1))"
    have f1: "\<exists>f \<in> set (flights ?s1). f_flight_id f = F" using h by simp
    have p1: "\<exists>p \<in> set (pilots ?s1). p_pilot_id p = P" using h by simp
    show "fst (assign_pilot ?s1 now_second (Integer F) (Integer P) date_second)
                     = Failed ''Error assigning pilot'' (IntegrityError UNIQUE_flight_pilot)"
      using assign_pilot_duplicate_error[OF ex _ _ f1 p1, of date_second now_second] h a by blast
  qed
  show "let s1 = snd (assign_pilot s now_first (Integer F) (Integer P) date_first) in
             length (filter (\<lambda>a. a_flight_id a = F \<and> a_pilot_id a = P) (pilot_assignments s1)) = 1
             \<and> snd (assign_pilot s1 now_second (Integer F) (Integer P) date_second) = s1
             \<and> (\<forall>m. fst (assign_pilot s1 now_second (Integer F) (Integer P) date_second) \<noteq> Succeeded m)
             \<and> ((strip date_second = [] \<or> strptime (strip date_second) \<noteq> None)
                  \<and> has_free_rowid (map a_assignment_id (pilot_assignments s1))
                 \<longrightarrow> fst (assign_pilot s1 now_second (Integer F) (Integer P) date_second)
                     = Failed ''Error assigning pilot'' (IntegrityError UNIQUE_flight_pilot))"
    unfolding first snd_conv Let_def
    using one assign_pilot_duplicate[OF ex, of now_second date_second] err by blast
next
  assume "reachable s'"
  then show "assignment_pairs_unique s'" using reachable_invariants by blast
qed


theorem assign_pilot_twice_rejected_witness:
  "in_int64 2 \<and> in_int64 1
   \<and> (\<exists>f \<in> set (flights example_db). f_flight_id f = 2)
   \<and> (\<exists>p \<in> set (pilots example_db). p_pilot_id p = 1)
   \<and> filter (\<lambda>a. a_flight_id a = 2 \<and> a_pilot_id a = 1) (pilot_assignments example_db) = []
   \<and> has_free_rowid (map a_assignment_id (pilot_assignments example_db))
   \<and> strip [] = []
   \<and> reachable init_db
   \<and> fst (assign_pilot example_db example_now (Integer 2) (Integer 1) [])
       = Succeeded ''Pilot assigned successfully''
   \<and> assignment_pairs_unique init_db"
proof -
  have h: "in_int64 2 \<and> in_int64 1
   \<and> (\<exists>f \<in> set (flights example_db). f_flight_id f = 2)
   \<and> (\<exists>p \<in> set (pilots example_db). p_pilot_id p = 1)
   \<and> (\<forall>a \<in> set (pilot_assignments example_db). \<not> (a_flight_id a = 2 \<and> a_pilot_id a = 1))
   \<and> has_free_rowid (map a_assignment_id (pilot_assignments example_db))
   \<and> (strip [] = [] \<or> strptime (strip []) \<noteq> None)"
    by (simp add: in_int64_def example_db_def has_free_rowid_def strip_def)
  have r: "reachable init_db" by (rule reachable.fresh)
  have f: "filter (\<lambda>a. a_flight_id a = 2 \<and> a_pilot_id a = 1) (pilot_assignments example_db) = []"
    by (simp add: example_db_def)
  have st: "strip [] = []" by (simp add: strip_def)
  show ?thesis
    using h r f st
      assign_pilot_twice_rejected[where F = 2 and P = 1 and s = example_db
           and date_first = "[]" and now_first = example_now and s' = init_db]
    by blast
qed


subsection \<open>Stored timestamps\<close>






subsection \<open>The pilot flight summary\<close>

lemma left_join_flights_rows:
  "row \<in> set (left_join_flights s p pa) \<Longrightarrow> fst row = p \<and> fst (snd row) = Some pa"
  by (auto simp: left_join_flights_def Let_def split: if_splits)










lemma counts_flight_left_join_flights:
  "filter counts_flight (left_join_flights s p pa) = left_join_flights s p pa"
  by (auto simp: filter_id_conv counts_flight_def dest: left_join_flights_rows)












end
